theory Spec2Isabelle
  imports Main "HOL-Library.Sublist" "HOL-Library.AList"
begin

section \<open>JavaScript strings\<close>

text \<open>
  A string is the list of its UTF-16 code units; the model covers the code units below 256
  (ASCII and Latin-1), one \<^typ>\<open>char\<close> each. On these, \<^verbatim>\<open>toLowerCase\<close> maps
  \<^verbatim>\<open>A-Z\<close> and the upper-case letters \<^verbatim>\<open>U+00C0-U+00DE\<close> (without the
  multiplication sign \<^verbatim>\<open>U+00D7\<close>) to the letter 32 places further on, and the white
  space of \<^verbatim>\<open>trim\<close> and of the regular expression class \<^verbatim>\<open>\s\<close> is
  TAB, LF, VT, FF, CR, SPACE and NBSP. The character classes are written as the lists of
  their members.
\<close>

definition whiteSpace :: "char list" where
  \<comment> \<open>TAB, LF, VT, FF, CR, SPACE, NBSP\<close>
  "whiteSpace = [CHR 0x09, CHR 0x0A, CHR 0x0B, CHR 0x0C, CHR 0x0D, CHR 0x20, CHR 0xA0]"

definition asciiUpper :: "char list" where
  "asciiUpper = ''ABCDEFGHIJKLMNOPQRSTUVWXYZ''"

definition asciiLower :: "char list" where
  "asciiLower = ''abcdefghijklmnopqrstuvwxyz''"

definition digits :: "char list" where
  "digits = ''0123456789''"

definition latin1Upper :: "char list" where
  "latin1Upper =
     [CHR 0xC0, CHR 0xC1, CHR 0xC2, CHR 0xC3, CHR 0xC4, CHR 0xC5, CHR 0xC6, CHR 0xC7,
      CHR 0xC8, CHR 0xC9, CHR 0xCA, CHR 0xCB, CHR 0xCC, CHR 0xCD, CHR 0xCE, CHR 0xCF,
      CHR 0xD0, CHR 0xD1, CHR 0xD2, CHR 0xD3, CHR 0xD4, CHR 0xD5, CHR 0xD6, CHR 0xD8,
      CHR 0xD9, CHR 0xDA, CHR 0xDB, CHR 0xDC, CHR 0xDD, CHR 0xDE]"

definition latin1Lower :: "char list" where
  "latin1Lower =
     [CHR 0xE0, CHR 0xE1, CHR 0xE2, CHR 0xE3, CHR 0xE4, CHR 0xE5, CHR 0xE6, CHR 0xE7,
      CHR 0xE8, CHR 0xE9, CHR 0xEA, CHR 0xEB, CHR 0xEC, CHR 0xED, CHR 0xEE, CHR 0xEF,
      CHR 0xF0, CHR 0xF1, CHR 0xF2, CHR 0xF3, CHR 0xF4, CHR 0xF5, CHR 0xF6, CHR 0xF8,
      CHR 0xF9, CHR 0xFA, CHR 0xFB, CHR 0xFC, CHR 0xFD, CHR 0xFE]"

definition isSpace :: "char \<Rightarrow> bool" where
  "isSpace c = (c \<in> set whiteSpace)"

definition isLowerAlnum :: "char \<Rightarrow> bool" where
  \<comment> \<open>the ranges \<^verbatim>\<open>a-z0-9\<close>\<close>
  "isLowerAlnum c = (c \<in> set (asciiLower @ digits))"

definition isWord :: "char \<Rightarrow> bool" where
  \<comment> \<open>the class \<^verbatim>\<open>\w\<close>, that is \<^verbatim>\<open>[A-Za-z0-9_]\<close>\<close>
  "isWord c = (c \<in> set (asciiUpper @ asciiLower @ digits @ ''_''))"

definition toLowerChar :: "char \<Rightarrow> char" where
  "toLowerChar c =
     (case map_of (zip (asciiUpper @ latin1Upper) (asciiLower @ latin1Lower)) c of
        Some l \<Rightarrow> l
      | None \<Rightarrow> c)"

definition toLowerCase :: "string \<Rightarrow> string" where
  "toLowerCase s = map toLowerChar s"

definition trim :: "string \<Rightarrow> string" where
  "trim s = rev (dropWhile isSpace (rev (dropWhile isSpace s)))"

definition js_includes :: "string \<Rightarrow> string \<Rightarrow> bool" where
  \<comment> \<open>\<^verbatim>\<open>s.includes(t)\<close>: \<open>t\<close> occurs in \<open>s\<close> as a contiguous run\<close>
  "js_includes s t = sublist t s"

function collapseSpaces :: "string \<Rightarrow> string" where
  \<comment> \<open>\<^verbatim>\<open>.replace(/\s+/g, " ")\<close>: every maximal run of white space becomes one space\<close>
  "collapseSpaces [] = []"
| "collapseSpaces (c # cs) =
     (if isSpace c then CHR '' '' # collapseSpaces (dropWhile isSpace cs)
      else c # collapseSpaces cs)"
  by pat_completeness auto
termination
  by (relation "measure length") (auto simp: less_Suc_eq_le length_dropWhile_le)

definition normalize :: "string \<Rightarrow> string" where
  \<comment> \<open>\<^verbatim>\<open>s.toLowerCase().replace(/[^a-z0-9\s-]/g, "").replace(/\s+/g, " ").trim()\<close>\<close>
  "normalize s =
     trim (collapseSpaces
       (filter (\<lambda>c. isLowerAlnum c \<or> isSpace c \<or> c = CHR ''-'') (toLowerCase s)))"

section \<open>The curated dataset and the tables of the service\<close>

datatype version_value = VString string | VNumber int | VBoolean bool

datatype baseline_value = BBoolean bool | BString string | BOther

text \<open>
  A dataset record as the service reads it: the id, the title, the status object (absent
  when the record has no \<^verbatim>\<open>status\<close> property) with its baseline value and its
  support object in declaration order, and the aliases (absent when the property is not an
  array). The descriptive fields of a record are copied into the snapshot one by one and
  nothing below reads them; they are left out.
\<close>

record FeatureStatus =
  status_baseline :: baseline_value
  status_support :: "(string \<times> version_value) list option"

record WebFeatureRecord =
  rec_id :: string
  rec_title :: string
  rec_status :: "FeatureStatus option"
  rec_aliases :: "string list option"

definition BROWSER_SUPPORT_MAP :: "(string \<times> string) list" where
  "BROWSER_SUPPORT_MAP =
     [(''chrome'', ''chrome''), (''edge'', ''edge''), (''firefox'', ''firefox''),
      (''safari'', ''safari'')]"

definition mockFeatures :: "(string \<times> FeatureStatus) list" where
  "mockFeatures = [
     (''css.properties.display'',
      \<lparr>status_baseline = BBoolean True,
       status_support = Some [(''chrome'', VString ''1''), (''firefox'', VString ''1''),
          (''safari'', VString ''1''), (''edge'', VString ''12'')]\<rparr>),
     (''css.properties.grid'',
      \<lparr>status_baseline = BBoolean True,
       status_support = Some [(''chrome'', VString ''57''), (''firefox'', VString ''52''),
          (''safari'', VString ''10.1''), (''edge'', VString ''16'')]\<rparr>),
     (''css.properties.flexbox'',
      \<lparr>status_baseline = BBoolean True,
       status_support = Some [(''chrome'', VString ''29''), (''firefox'', VString ''28''),
          (''safari'', VString ''9''), (''edge'', VString ''12'')]\<rparr>),
     (''css.properties.container-query'',
      \<lparr>status_baseline = BBoolean False,
       status_support = Some [(''chrome'', VString ''105''), (''firefox'', VString ''110''),
          (''safari'', VString ''16''), (''edge'', VString ''105'')]\<rparr>),
     (''css.properties.aspect-ratio'',
      \<lparr>status_baseline = BString ''low'',
       status_support = Some [(''chrome'', VString ''88''), (''firefox'', VString ''89''),
          (''safari'', VString ''15''), (''edge'', VString ''88'')]\<rparr>),
     (''css.media.prefers-color-scheme'',
      \<lparr>status_baseline = BBoolean True,
       status_support = Some [(''chrome'', VString ''76''), (''firefox'', VString ''67''),
          (''safari'', VString ''12.1''), (''edge'', VString ''79'')]\<rparr>),
     (''css.properties.color-scheme'',
      \<lparr>status_baseline = BBoolean True,
       status_support = Some [(''chrome'', VString ''81''), (''firefox'', VString ''96''),
          (''safari'', VString ''15''), (''edge'', VString ''81'')]\<rparr>),
     (''css.custom-properties'',
      \<lparr>status_baseline = BBoolean True,
       status_support = Some [(''chrome'', VString ''49''), (''firefox'', VString ''31''),
          (''safari'', VString ''9.1''), (''edge'', VString ''15'')]\<rparr>)
  ]"
definition manualAlias :: "(string \<times> string) list" where
  "manualAlias = [
     (''dark mode'', ''css.media.prefers-color-scheme''),
     (''dark mode/theming'', ''css.media.prefers-color-scheme''),
     (''theming'', ''css.media.prefers-color-scheme''),
     (''theme'', ''css.media.prefers-color-scheme''),
     (''prefers color scheme'', ''css.media.prefers-color-scheme''),
     (''prefers-color-scheme'', ''css.media.prefers-color-scheme''),
     (''color scheme'', ''css.properties.color-scheme''),
     (''color-scheme'', ''css.properties.color-scheme''),
     (''css variables'', ''css.custom-properties''),
     (''variables'', ''css.custom-properties''),
     (''custom properties'', ''css.custom-properties''),
     (''css custom properties'', ''css.custom-properties''),
     (''flexbox'', ''css.properties.flexbox''),
     (''flexbox layout'', ''css.properties.flexbox''),
     (''css flexbox'', ''css.properties.flexbox''),
     (''flex layout'', ''css.properties.flexbox''),
     (''grid'', ''css.properties.grid''),
     (''grid layout'', ''css.properties.grid''),
     (''css grid'', ''css.properties.grid''),
     (''css grid layout'', ''css.properties.grid''),
     (''fetch'', ''api.fetch''),
     (''websocket'', ''api.websocket''),
     (''websockets'', ''api.websocket''),
     (''abortcontroller'', ''api.abort-controller''),
     (''service worker'', ''api.service-worker''),
     (''web app manifest'', ''api.web-app-manifest''),
     (''manifest'', ''api.web-app-manifest''),
     (''web share'', ''api.web-share''),
     (''indexeddb'', ''api.indexeddb''),
     (''idb'', ''api.indexeddb''),
     (''caches'', ''api.cache-storage''),
     (''csp'', ''http.csp''),
     (''referrer policy'', ''http.referrer-policy''),
     (''webauthn'', ''api.webauthn''),
     (''optional chaining'', ''js.syntax.optional-chaining''),
     (''import maps'', ''js.import-maps''),
     (''view transitions'', ''api.view-transitions''),
     (''navigation api'', ''api.navigation''),
     (''sharedarraybuffer'', ''js.sharedarraybuffer''),
     (''coop'', ''http.headers.coop''),
     (''coep'', ''http.headers.coep''),
     (''corp'', ''http.headers.corp''),
     (''clipboard'', ''api.clipboard''),
     (''clipboard api'', ''api.clipboard''),
     (''navigator.clipboard'', ''api.clipboard''),
     (''element internals'', ''api.elementinternals''),
     (''elementinternals'', ''api.elementinternals''),
     (''resizeobserver'', ''api.resize-observer''),
     (''resize observer'', ''api.resize-observer''),
     (''webcodecs'', ''api.webcodecs''),
     (''web codecs'', ''api.webcodecs''),
     (''webgpu'', ''api.webgpu''),
     (''wgpu'', ''api.webgpu''),
     (''gpu'', ''api.webgpu''),
     (''offscreencanvas'', ''api.offscreen-canvas''),
     (''offscreen canvas'', ''api.offscreen-canvas'')
  ]"

definition WEB_FEATURES_DATA :: "(string \<times> WebFeatureRecord) list" where
  "WEB_FEATURES_DATA = [
     (''css.properties.display'',
      \<lparr>rec_id = ''css.properties.display'', rec_title = ''CSS Display Property'',
       rec_status = Some \<lparr>status_baseline = BBoolean True,
         status_support = Some [(''chrome'', VString ''1''), (''firefox'', VString ''1''),
          (''safari'', VString ''1''), (''edge'', VString ''12'')]\<rparr>,
       rec_aliases = Some [''display'', ''css display'']\<rparr>),
     (''css.properties.grid'',
      \<lparr>rec_id = ''css.properties.grid'', rec_title = ''CSS Grid Layout'',
       rec_status = Some \<lparr>status_baseline = BBoolean True,
         status_support = Some [(''chrome'', VString ''57''), (''firefox'', VString ''52''),
          (''safari'', VString ''10.1''), (''edge'', VString ''16''),
          (''chrome_android'', VString ''57''), (''firefox_android'', VString ''52''),
          (''safari_ios'', VString ''10.3'')]\<rparr>,
       rec_aliases = Some [''grid'', ''grid layout'', ''css grid'']\<rparr>),
     (''css.properties.flexbox'',
      \<lparr>rec_id = ''css.properties.flexbox'', rec_title = ''CSS Flexbox'',
       rec_status = Some \<lparr>status_baseline = BBoolean True,
         status_support = Some [(''chrome'', VString ''29''), (''firefox'', VString ''28''),
          (''safari'', VString ''9''), (''edge'', VString ''12''),
          (''chrome_android'', VString ''29''), (''firefox_android'', VString ''28''),
          (''safari_ios'', VString ''9'')]\<rparr>,
       rec_aliases = Some [''flex'', ''flexbox'', ''flex layout'', ''css flexbox'']\<rparr>),
     (''css.properties.container-query'',
      \<lparr>rec_id = ''css.properties.container-query'', rec_title = ''CSS Container Queries'',
       rec_status = Some \<lparr>status_baseline = BBoolean False,
         status_support = Some [(''chrome'', VString ''105''), (''firefox'', VString ''110''),
          (''safari'', VString ''16''), (''edge'', VString ''105'')]\<rparr>,
       rec_aliases = Some [''container queries'', ''container query'']\<rparr>),
     (''css.properties.aspect-ratio'',
      \<lparr>rec_id = ''css.properties.aspect-ratio'', rec_title = ''CSS Aspect Ratio'',
       rec_status = Some \<lparr>status_baseline = BString ''low'',
         status_support = Some [(''chrome'', VString ''88''), (''firefox'', VString ''89''),
          (''safari'', VString ''15''), (''edge'', VString ''88'')]\<rparr>,
       rec_aliases = Some [''aspect ratio'', ''aspect-ratio'']\<rparr>),
     (''css.properties.position-sticky'',
      \<lparr>rec_id = ''css.properties.position-sticky'', rec_title = ''CSS position: sticky'',
       rec_status = Some \<lparr>status_baseline = BBoolean True,
         status_support = Some [(''chrome'', VString ''56''), (''firefox'', VString ''32''),
          (''safari'', VString ''6.1''), (''edge'', VString ''16'')]\<rparr>,
       rec_aliases = Some [''sticky'', ''position sticky'']\<rparr>),
     (''css.media.prefers-color-scheme'',
      \<lparr>rec_id = ''css.media.prefers-color-scheme'', rec_title = ''Dark Mode (prefers-color-scheme)'',
       rec_status = Some \<lparr>status_baseline = BBoolean True,
         status_support = Some [(''chrome'', VString ''76''), (''firefox'', VString ''67''),
          (''safari'', VString ''12.1''), (''edge'', VString ''79''),
          (''chrome_android'', VString ''76''), (''firefox_android'', VString ''67''),
          (''safari_ios'', VString ''13'')]\<rparr>,
       rec_aliases = Some [''dark mode'', ''theming'', ''prefers-color-scheme'']\<rparr>),
     (''css.properties.color-scheme'',
      \<lparr>rec_id = ''css.properties.color-scheme'', rec_title = ''CSS color-scheme'',
       rec_status = Some \<lparr>status_baseline = BBoolean True,
         status_support = Some [(''chrome'', VString ''81''), (''firefox'', VString ''96''),
          (''safari'', VString ''15''), (''edge'', VString ''81'')]\<rparr>,
       rec_aliases = Some [''color scheme'', ''color-scheme'']\<rparr>),
     (''css.custom-properties'',
      \<lparr>rec_id = ''css.custom-properties'', rec_title = ''CSS Custom Properties (Variables)'',
       rec_status = Some \<lparr>status_baseline = BBoolean True,
         status_support = Some [(''chrome'', VString ''49''), (''firefox'', VString ''31''),
          (''safari'', VString ''9.1''), (''edge'', VString ''15'')]\<rparr>,
       rec_aliases = Some [''css variables'', ''custom properties'', ''variables'']\<rparr>),
     (''css.at-rules.media'',
      \<lparr>rec_id = ''css.at-rules.media'', rec_title = ''CSS Media Queries'',
       rec_status = Some \<lparr>status_baseline = BBoolean True,
         status_support = Some [(''chrome'', VString ''21''), (''firefox'', VString ''9''),
          (''safari'', VString ''6''), (''edge'', VString ''12'')]\<rparr>,
       rec_aliases = Some [''media queries'', ''responsive'', ''@media'']\<rparr>),
     (''css.functions.clamp'',
      \<lparr>rec_id = ''css.functions.clamp'', rec_title = ''CSS clamp()'',
       rec_status = Some \<lparr>status_baseline = BBoolean True,
         status_support = Some [(''chrome'', VString ''79''), (''firefox'', VString ''75''),
          (''safari'', VString ''13.1''), (''edge'', VString ''79'')]\<rparr>,
       rec_aliases = Some [''clamp'', ''fluid typography'']\<rparr>),
     (''css.selectors.has'',
      \<lparr>rec_id = ''css.selectors.has'', rec_title = '':has() selector'',
       rec_status = Some \<lparr>status_baseline = BString ''low'',
         status_support = Some [(''chrome'', VString ''105''), (''firefox'', VString ''121''),
          (''safari'', VString ''15.4''), (''edge'', VString ''105'')]\<rparr>,
       rec_aliases = Some ['':has'', ''has selector'']\<rparr>),
     (''css.selectors.is'',
      \<lparr>rec_id = ''css.selectors.is'', rec_title = '':is() selector'',
       rec_status = Some \<lparr>status_baseline = BBoolean True,
         status_support = Some [(''chrome'', VString ''88''), (''firefox'', VString ''78''),
          (''safari'', VString ''14''), (''edge'', VString ''88'')]\<rparr>,
       rec_aliases = Some ['':is'', ''is selector'']\<rparr>),
     (''css.selectors.where'',
      \<lparr>rec_id = ''css.selectors.where'', rec_title = '':where() selector'',
       rec_status = Some \<lparr>status_baseline = BBoolean True,
         status_support = Some [(''chrome'', VString ''88''), (''firefox'', VString ''78''),
          (''safari'', VString ''15.4''), (''edge'', VString ''88'')]\<rparr>,
       rec_aliases = Some ['':where'', ''where selector'']\<rparr>),
     (''html.elements.img.srcset'',
      \<lparr>rec_id = ''html.elements.img.srcset'', rec_title = ''Responsive Images: srcset'',
       rec_status = Some \<lparr>status_baseline = BBoolean True,
         status_support = Some [(''chrome'', VString ''34''), (''firefox'', VString ''38''),
          (''safari'', VString ''9''), (''edge'', VString ''14'')]\<rparr>,
       rec_aliases = Some [''responsive images'', ''srcset'']\<rparr>),
     (''html.elements.img.sizes'',
      \<lparr>rec_id = ''html.elements.img.sizes'', rec_title = ''Responsive Images: sizes'',
       rec_status = Some \<lparr>status_baseline = BBoolean True,
         status_support = Some [(''chrome'', VString ''34''), (''firefox'', VString ''38''),
          (''safari'', VString ''9''), (''edge'', VString ''14'')]\<rparr>,
       rec_aliases = Some [''sizes attribute'', ''responsive images'']\<rparr>),
     (''html.elements.dialog'',
      \<lparr>rec_id = ''html.elements.dialog'', rec_title = ''<dialog> element'',
       rec_status = Some \<lparr>status_baseline = BBoolean True,
         status_support = Some [(''chrome'', VBoolean True), (''firefox'', VBoolean True),
          (''safari'', VBoolean True), (''edge'', VBoolean True),
          (''chrome_android'', VBoolean True), (''firefox_android'', VBoolean True),
          (''safari_ios'', VString ''15.4'')]\<rparr>,
       rec_aliases = Some [''dialog'', ''modal dialog'']\<rparr>),
     (''html.attributes.popover'',
      \<lparr>rec_id = ''html.attributes.popover'', rec_title = ''Popover attribute'',
       rec_status = Some \<lparr>status_baseline = BString ''low'',
         status_support = Some [(''chrome'', VBoolean True), (''firefox'', VBoolean False),
          (''safari'', VBoolean True), (''edge'', VBoolean True)]\<rparr>,
       rec_aliases = Some [''popover'', ''popover attribute'']\<rparr>),
     (''js.syntax.optional-chaining'',
      \<lparr>rec_id = ''js.syntax.optional-chaining'', rec_title = ''Optional chaining (?.)'',
       rec_status = Some \<lparr>status_baseline = BBoolean True,
         status_support = Some [(''chrome'', VString ''80''), (''firefox'', VString ''72''),
          (''safari'', VString ''13.1''), (''edge'', VString ''80''),
          (''chrome_android'', VString ''80''), (''firefox_android'', VString ''79''),
          (''safari_ios'', VString ''13.4'')]\<rparr>,
       rec_aliases = Some [''optional chaining'', ''?.'', ''safe navigation'', ''null conditional'']\<rparr>),
     (''js.syntax.top-level-await'',
      \<lparr>rec_id = ''js.syntax.top-level-await'', rec_title = ''Top-level await'',
       rec_status = Some \<lparr>status_baseline = BBoolean True,
         status_support = Some [(''chrome'', VBoolean True), (''firefox'', VBoolean True),
          (''safari'', VBoolean True), (''edge'', VBoolean True)]\<rparr>,
       rec_aliases = Some [''tla'', ''top level await'']\<rparr>),
     (''js.import-maps'',
      \<lparr>rec_id = ''js.import-maps'', rec_title = ''Import Maps'',
       rec_status = Some \<lparr>status_baseline = BString ''low'',
         status_support = Some [(''chrome'', VBoolean True), (''firefox'', VBoolean False),
          (''safari'', VBoolean True), (''edge'', VBoolean True)]\<rparr>,
       rec_aliases = Some [''import maps'']\<rparr>),
     (''api.fetch'',
      \<lparr>rec_id = ''api.fetch'', rec_title = ''Fetch API'',
       rec_status = Some \<lparr>status_baseline = BBoolean True,
         status_support = Some [(''chrome'', VBoolean True), (''firefox'', VBoolean True),
          (''safari'', VBoolean True), (''edge'', VBoolean True)]\<rparr>,
       rec_aliases = Some [''fetch'']\<rparr>),
     (''api.abort-controller'',
      \<lparr>rec_id = ''api.abort-controller'', rec_title = ''AbortController'',
       rec_status = Some \<lparr>status_baseline = BBoolean True,
         status_support = Some [(''chrome'', VBoolean True), (''firefox'', VBoolean True),
          (''safari'', VBoolean True), (''edge'', VBoolean True)]\<rparr>,
       rec_aliases = Some [''abortcontroller'', ''abort signal'']\<rparr>),
     (''api.websocket'',
      \<lparr>rec_id = ''api.websocket'', rec_title = ''WebSocket'',
       rec_status = Some \<lparr>status_baseline = BBoolean True,
         status_support = Some [(''chrome'', VBoolean True), (''firefox'', VBoolean True),
          (''safari'', VBoolean True), (''edge'', VBoolean True)]\<rparr>,
       rec_aliases = Some [''websocket'']\<rparr>),
     (''api.indexeddb'',
      \<lparr>rec_id = ''api.indexeddb'', rec_title = ''IndexedDB'',
       rec_status = Some \<lparr>status_baseline = BBoolean True,
         status_support = Some [(''chrome'', VBoolean True), (''firefox'', VBoolean True),
          (''safari'', VBoolean True), (''edge'', VBoolean True)]\<rparr>,
       rec_aliases = Some [''indexeddb'', ''idb'']\<rparr>),
     (''api.cache-storage'',
      \<lparr>rec_id = ''api.cache-storage'', rec_title = ''Cache Storage API'',
       rec_status = Some \<lparr>status_baseline = BBoolean True,
         status_support = Some [(''chrome'', VBoolean True), (''firefox'', VBoolean True),
          (''safari'', VBoolean True), (''edge'', VBoolean True)]\<rparr>,
       rec_aliases = Some [''cache storage'', ''caches'']\<rparr>),
     (''api.service-worker'',
      \<lparr>rec_id = ''api.service-worker'', rec_title = ''Service Worker'',
       rec_status = Some \<lparr>status_baseline = BBoolean True,
         status_support = Some [(''chrome'', VBoolean True), (''firefox'', VBoolean True),
          (''safari'', VBoolean True), (''edge'', VBoolean True),
          (''chrome_android'', VBoolean True), (''firefox_android'', VBoolean True),
          (''safari_ios'', VString ''11.1'')]\<rparr>,
       rec_aliases = Some [''service worker'', ''sw'']\<rparr>),
     (''api.web-app-manifest'',
      \<lparr>rec_id = ''api.web-app-manifest'', rec_title = ''Web App Manifest'',
       rec_status = Some \<lparr>status_baseline = BString ''low'',
         status_support = Some [(''chrome'', VBoolean True), (''firefox'', VBoolean False),
          (''safari'', VBoolean True), (''edge'', VBoolean True)]\<rparr>,
       rec_aliases = Some [''manifest.json'', ''pwa manifest'']\<rparr>),
     (''api.web-share'',
      \<lparr>rec_id = ''api.web-share'', rec_title = ''Web Share API'',
       rec_status = Some \<lparr>status_baseline = BString ''low'',
         status_support = Some [(''chrome'', VBoolean True), (''firefox'', VBoolean False),
          (''safari'', VBoolean True), (''edge'', VBoolean True),
          (''chrome_android'', VBoolean True), (''firefox_android'', VBoolean False),
          (''safari_ios'', VBoolean True)]\<rparr>,
       rec_aliases = Some [''navigator.share'', ''web share'']\<rparr>),
     (''api.file-system-access'',
      \<lparr>rec_id = ''api.file-system-access'', rec_title = ''File System Access API'',
       rec_status = Some \<lparr>status_baseline = BString ''low'',
         status_support = Some [(''chrome'', VBoolean True), (''firefox'', VBoolean False),
          (''safari'', VBoolean False), (''edge'', VBoolean True)]\<rparr>,
       rec_aliases = Some [''file system access'', ''showOpenFilePicker'']\<rparr>),
     (''http.csp'',
      \<lparr>rec_id = ''http.csp'', rec_title = ''Content Security Policy (CSP)'',
       rec_status = Some \<lparr>status_baseline = BBoolean True,
         status_support = Some [(''chrome'', VBoolean True), (''firefox'', VBoolean True),
          (''safari'', VBoolean True), (''edge'', VBoolean True)]\<rparr>,
       rec_aliases = Some [''csp'', ''content security policy'']\<rparr>),
     (''http.referrer-policy'',
      \<lparr>rec_id = ''http.referrer-policy'', rec_title = ''Referrer Policy'',
       rec_status = Some \<lparr>status_baseline = BBoolean True,
         status_support = Some [(''chrome'', VBoolean True), (''firefox'', VBoolean True),
          (''safari'', VBoolean True), (''edge'', VBoolean True)]\<rparr>,
       rec_aliases = Some [''referrer policy'']\<rparr>),
     (''api.webauthn'',
      \<lparr>rec_id = ''api.webauthn'', rec_title = ''WebAuthn (Passkeys)'',
       rec_status = Some \<lparr>status_baseline = BBoolean True,
         status_support = Some [(''chrome'', VBoolean True), (''firefox'', VBoolean True),
          (''safari'', VBoolean True), (''edge'', VBoolean True)]\<rparr>,
       rec_aliases = Some [''webauthn'', ''passkeys'']\<rparr>),
     (''api.geolocation'',
      \<lparr>rec_id = ''api.geolocation'', rec_title = ''Geolocation API'',
       rec_status = Some \<lparr>status_baseline = BBoolean True,
         status_support = Some [(''chrome'', VBoolean True), (''firefox'', VBoolean True),
          (''safari'', VBoolean True), (''edge'', VBoolean True),
          (''chrome_android'', VBoolean True), (''firefox_android'', VBoolean True),
          (''safari_ios'', VBoolean True)]\<rparr>,
       rec_aliases = Some [''geolocation'']\<rparr>),
     (''api.screen-wake-lock'',
      \<lparr>rec_id = ''api.screen-wake-lock'', rec_title = ''Screen Wake Lock API'',
       rec_status = Some \<lparr>status_baseline = BString ''low'',
         status_support = Some [(''chrome'', VBoolean True), (''firefox'', VBoolean False),
          (''safari'', VBoolean True), (''edge'', VBoolean True)]\<rparr>,
       rec_aliases = Some [''wake lock'', ''screen wakelock'']\<rparr>),
     (''api.mediarecorder'',
      \<lparr>rec_id = ''api.mediarecorder'', rec_title = ''MediaRecorder'',
       rec_status = Some \<lparr>status_baseline = BBoolean True,
         status_support = Some [(''chrome'', VBoolean True), (''firefox'', VBoolean True),
          (''safari'', VBoolean True), (''edge'', VBoolean True)]\<rparr>,
       rec_aliases = Some [''media recorder'', ''record media'']\<rparr>),
     (''api.webrtc'',
      \<lparr>rec_id = ''api.webrtc'', rec_title = ''WebRTC'',
       rec_status = Some \<lparr>status_baseline = BBoolean True,
         status_support = Some [(''chrome'', VBoolean True), (''firefox'', VBoolean True),
          (''safari'', VBoolean True), (''edge'', VBoolean True),
          (''chrome_android'', VBoolean True), (''firefox_android'', VBoolean True),
          (''safari_ios'', VString ''11'')]\<rparr>,
       rec_aliases = Some [''webrtc'', ''rtc'']\<rparr>),
     (''api.media-session'',
      \<lparr>rec_id = ''api.media-session'', rec_title = ''Media Session API'',
       rec_status = Some \<lparr>status_baseline = BString ''low'',
         status_support = Some [(''chrome'', VBoolean True), (''firefox'', VBoolean False),
          (''safari'', VBoolean True), (''edge'', VBoolean True)]\<rparr>,
       rec_aliases = Some [''media session'']\<rparr>),
     (''api.view-transitions'',
      \<lparr>rec_id = ''api.view-transitions'', rec_title = ''View Transitions API'',
       rec_status = Some \<lparr>status_baseline = BString ''low'',
         status_support = Some [(''chrome'', VBoolean True), (''firefox'', VBoolean False),
          (''safari'', VBoolean True), (''edge'', VBoolean True)]\<rparr>,
       rec_aliases = Some [''view transitions'', ''document.startViewTransition'']\<rparr>),
     (''api.navigation'',
      \<lparr>rec_id = ''api.navigation'', rec_title = ''Navigation API'',
       rec_status = Some \<lparr>status_baseline = BString ''low'',
         status_support = Some [(''chrome'', VBoolean True), (''firefox'', VBoolean False),
          (''safari'', VBoolean True), (''edge'', VBoolean True)]\<rparr>,
       rec_aliases = Some [''navigation api'', ''app history'']\<rparr>),
     (''js.sharedarraybuffer'',
      \<lparr>rec_id = ''js.sharedarraybuffer'', rec_title = ''SharedArrayBuffer & Atomics'',
       rec_status = Some \<lparr>status_baseline = BString ''low'',
         status_support = Some [(''chrome'', VBoolean True), (''firefox'', VBoolean True),
          (''safari'', VBoolean True), (''edge'', VBoolean True)]\<rparr>,
       rec_aliases = Some [''sharedarraybuffer'', ''atomics'']\<rparr>),
     (''http.headers.coop'',
      \<lparr>rec_id = ''http.headers.coop'', rec_title = ''Cross-Origin-Opener-Policy (COOP)'',
       rec_status = Some \<lparr>status_baseline = BString ''low'',
         status_support = Some [(''chrome'', VBoolean True), (''firefox'', VBoolean True),
          (''safari'', VBoolean True), (''edge'', VBoolean True)]\<rparr>,
       rec_aliases = Some [''coop'', ''cross-origin-opener-policy'']\<rparr>),
     (''http.headers.coep'',
      \<lparr>rec_id = ''http.headers.coep'', rec_title = ''Cross-Origin-Embedder-Policy (COEP)'',
       rec_status = Some \<lparr>status_baseline = BString ''low'',
         status_support = Some [(''chrome'', VBoolean True), (''firefox'', VBoolean True),
          (''safari'', VBoolean True), (''edge'', VBoolean True)]\<rparr>,
       rec_aliases = Some [''coep'', ''cross-origin-embedder-policy'']\<rparr>),
     (''http.headers.corp'',
      \<lparr>rec_id = ''http.headers.corp'', rec_title = ''Cross-Origin-Resource-Policy (CORP)'',
       rec_status = Some \<lparr>status_baseline = BBoolean True,
         status_support = Some [(''chrome'', VBoolean True), (''firefox'', VBoolean True),
          (''safari'', VBoolean True), (''edge'', VBoolean True)]\<rparr>,
       rec_aliases = Some [''corp'', ''cross-origin-resource-policy'']\<rparr>),
     (''api.clipboard'',
      \<lparr>rec_id = ''api.clipboard'', rec_title = ''Async Clipboard API'',
       rec_status = Some \<lparr>status_baseline = BString ''low'',
         status_support = Some [(''chrome'', VBoolean True), (''firefox'', VBoolean True),
          (''safari'', VBoolean True), (''edge'', VBoolean True)]\<rparr>,
       rec_aliases = Some [''clipboard api'', ''navigator.clipboard'', ''clipboard-read'', ''clipboard-write'']\<rparr>),
     (''api.elementinternals'',
      \<lparr>rec_id = ''api.elementinternals'', rec_title = ''ElementInternals (Custom Elements)'',
       rec_status = Some \<lparr>status_baseline = BString ''low'',
         status_support = Some [(''chrome'', VBoolean True), (''firefox'', VBoolean False),
          (''safari'', VBoolean True), (''edge'', VBoolean True)]\<rparr>,
       rec_aliases = Some [''element internals'', ''form-associated custom elements'']\<rparr>),
     (''api.resize-observer'',
      \<lparr>rec_id = ''api.resize-observer'', rec_title = ''ResizeObserver'',
       rec_status = Some \<lparr>status_baseline = BBoolean True,
         status_support = Some [(''chrome'', VBoolean True), (''firefox'', VBoolean True),
          (''safari'', VBoolean True), (''edge'', VBoolean True)]\<rparr>,
       rec_aliases = Some [''resizeobserver'']\<rparr>),
     (''api.webcodecs'',
      \<lparr>rec_id = ''api.webcodecs'', rec_title = ''WebCodecs'',
       rec_status = Some \<lparr>status_baseline = BString ''low'',
         status_support = Some [(''chrome'', VBoolean True), (''firefox'', VBoolean False),
          (''safari'', VBoolean True), (''edge'', VBoolean True)]\<rparr>,
       rec_aliases = Some [''web codecs'']\<rparr>),
     (''api.webgpu'',
      \<lparr>rec_id = ''api.webgpu'', rec_title = ''WebGPU'',
       rec_status = Some \<lparr>status_baseline = BString ''low'',
         status_support = Some [(''chrome'', VBoolean True), (''firefox'', VBoolean False),
          (''safari'', VBoolean True), (''edge'', VBoolean True)]\<rparr>,
       rec_aliases = Some [''wgpu'', ''gpu'']\<rparr>),
     (''api.offscreen-canvas'',
      \<lparr>rec_id = ''api.offscreen-canvas'', rec_title = ''OffscreenCanvas'',
       rec_status = Some \<lparr>status_baseline = BString ''low'',
         status_support = Some [(''chrome'', VBoolean True), (''firefox'', VBoolean True),
          (''safari'', VBoolean False), (''edge'', VBoolean True)]\<rparr>,
       rec_aliases = Some [''offscreen canvas'', ''transferControlToOffscreen'']\<rparr>)
  ]"
section \<open>Alias resolver\<close>

text \<open>
  An object of the service is the list of its own properties in enumeration order, which
  is insertion order here: no key of the tables is an array index. The assignment
  \<^verbatim>\<open>out[k] = v\<close> overwrites the value of an existing key where it stands and appends a
  new key, which is \<^const>\<open>AList.update\<close>.
\<close>

definition addRecord :: "(string \<times> string) list \<Rightarrow> WebFeatureRecord \<Rightarrow> (string \<times> string) list" where
  \<comment> \<open>the body of the \<^verbatim>\<open>forEach\<close> over the dataset records\<close>
  "addRecord out r =
     (let out1 = AList.update (normalize (rec_title r)) (rec_id r) out
      in case rec_aliases r of
           Some as \<Rightarrow> foldl (\<lambda>acc a. AList.update (normalize a) (rec_id r) acc) out1 as
         | None \<Rightarrow> out1)"

definition buildAliasIndex ::
  "(string \<times> string) list \<Rightarrow> (string \<times> WebFeatureRecord) list \<Rightarrow> (string \<times> string) list" where
  \<comment> \<open>\<^verbatim>\<open>out = { ...manualAlias }\<close>, then one \<^const>\<open>addRecord\<close> per value of the dataset\<close>
  "buildAliasIndex manual dataset = foldl addRecord manual (map snd dataset)"

definition aliasIndex :: "(string \<times> string) list" where
  "aliasIndex = buildAliasIndex manualAlias WEB_FEATURES_DATA"

text \<open>
  A property read \<^verbatim>\<open>obj[key]\<close> on a plain object finds the object's own property
  and otherwise the property of that name which every object inherits from
  \<^verbatim>\<open>Object.prototype\<close>. The value read is then not a string: \<open>Inherited p\<close>
  stands for the inherited value of the property \<open>p\<close>.
\<close>

datatype id_value = IdString string | Inherited string

definition objectPrototypeKeys :: "string list" where
  "objectPrototypeKeys =
     [''constructor'', ''__defineGetter__'', ''__defineSetter__'', ''hasOwnProperty'',
      ''__lookupGetter__'', ''__lookupSetter__'', ''isPrototypeOf'', ''propertyIsEnumerable'',
      ''toString'', ''valueOf'', ''__proto__'', ''toLocaleString'']"

definition getProperty :: "(string \<times> string) list \<Rightarrow> string \<Rightarrow> id_value option" where
  "getProperty obj key =
     (case map_of obj key of
        Some v \<Rightarrow> Some (IdString v)
      | None \<Rightarrow> if key \<in> set objectPrototypeKeys then Some (Inherited key) else None)"

fun truthy :: "id_value \<Rightarrow> bool" where
  "truthy (IdString s) = (s \<noteq> [])"
| "truthy (Inherited p) = True"

fun fuzzyScan :: "string \<Rightarrow> (string \<times> string) list \<Rightarrow> string option" where
  \<comment> \<open>the \<^verbatim>\<open>for ... of Object.entries(aliasIndex)\<close> loop with its early return\<close>
  "fuzzyScan n [] = None"
| "fuzzyScan n ((alias, i) # rest) =
     (if js_includes n alias \<or> js_includes alias n then Some i else fuzzyScan n rest)"

definition resolveIn :: "(string \<times> string) list \<Rightarrow> string \<Rightarrow> id_value option" where
  \<comment> \<open>\<^verbatim>\<open>resolveFeatureIdByName\<close> over a given index; \<open>None\<close> is \<^verbatim>\<open>undefined\<close>\<close>
  "resolveIn idx name =
     (let n = normalize name
      in case getProperty idx n of
           Some v \<Rightarrow> if truthy v then Some v else map_option IdString (fuzzyScan n idx)
         | None \<Rightarrow> map_option IdString (fuzzyScan n idx))"

definition resolveFeatureIdByName :: "string \<Rightarrow> id_value option" where
  "resolveFeatureIdByName name = resolveIn aliasIndex name"

section \<open>Baseline enricher\<close>

record FeatureBaselineStatus =
  status :: string
  support :: "(string \<times> bool) list"
  versions :: "(string \<times> version_value) list"

definition lookupFeature :: "string \<Rightarrow> FeatureStatus option" where
  \<comment> \<open>\<^verbatim>\<open>WEB_FEATURES_DATA[featureId] || mockFeatures[featureId]\<close>, then the test
      \<^verbatim>\<open>!feature || !("status" in feature)\<close>; an inherited property has no status and
      takes the same branch as a missing record\<close>
  "lookupFeature featureId =
     (case map_of WEB_FEATURES_DATA featureId of
        Some r \<Rightarrow> rec_status r
      | None \<Rightarrow> map_of mockFeatures featureId)"

fun statusOfBaseline :: "baseline_value \<Rightarrow> string" where
  "statusOfBaseline (BBoolean b) = (if b then ''high'' else ''low'')"
| "statusOfBaseline (BString s) = s"
| "statusOfBaseline BOther = ''unknown''"

definition supportValue :: "FeatureStatus \<Rightarrow> string \<Rightarrow> version_value option" where
  \<comment> \<open>\<^verbatim>\<open>feature.status.support && feature.status.support[browser]\<close>\<close>
  "supportValue st browser =
     (case status_support st of None \<Rightarrow> None | Some m \<Rightarrow> map_of m browser)"

fun supportFlag :: "version_value option \<Rightarrow> bool" where
  "supportFlag (Some (VString s)) = True"
| "supportFlag (Some (VNumber n)) = True"
| "supportFlag (Some (VBoolean b)) = b"
| "supportFlag None = False"

definition snapshot :: "string list \<Rightarrow> FeatureStatus \<Rightarrow> FeatureBaselineStatus" where
  "snapshot browsers st =
     \<lparr>status = statusOfBaseline (status_baseline st),
      support = map (\<lambda>b. (b, supportFlag (supportValue st b))) browsers,
      versions = concat (map (\<lambda>b. case supportValue st b of
                                      None \<Rightarrow> [] | Some v \<Rightarrow> [(b, v)]) browsers)\<rparr>"

fun getFeatureBaselineStatus :: "id_value \<Rightarrow> FeatureBaselineStatus option" where
  "getFeatureBaselineStatus (IdString featureId) =
     map_option (snapshot (map fst BROWSER_SUPPORT_MAP)) (lookupFeature featureId)"
| "getFeatureBaselineStatus (Inherited p) = None"

definition getFeatureBaselineByName :: "string \<Rightarrow> FeatureBaselineStatus option" where
  "getFeatureBaselineByName featureName =
     (case resolveFeatureIdByName featureName of
        None \<Rightarrow> None
      | Some i \<Rightarrow> if truthy i then getFeatureBaselineStatus i else None)"

section \<open>Plan deduplicator\<close>

text \<open>
  The pass that \<^verbatim>\<open>analyzeUIDesign\<close> runs over the parsed plan before it returns it.
  A mention carries a name, an optional feature id and an optional baseline snapshot; a
  section carries a title, a content and an optional list of mentions (absent when the
  property is not an array).
\<close>

record FeatureMention =
  name :: string
  featureId :: "id_value option"
  baseline :: "FeatureBaselineStatus option"

record PlanSection =
  title :: string
  content :: string
  webFeatures :: "FeatureMention list option"

definition demoPool :: "(string \<times> string) list" where
  \<comment> \<open>pairs of \<^verbatim>\<open>featureId\<close> and \<^verbatim>\<open>name\<close>\<close>
  "demoPool =
     [(''css.media.prefers-color-scheme'', ''Dark Mode (prefers-color-scheme)''),
      (''css.properties.color-scheme'', ''CSS color-scheme''),
      (''css.custom-properties'', ''CSS Variables (Custom Properties)''),
      (''css.properties.grid'', ''CSS Grid Layout''),
      (''css.properties.flexbox'', ''CSS Flexbox''),
      (''css.properties.container-query'', ''CSS Container Queries''),
      (''css.properties.aspect-ratio'', ''CSS Aspect Ratio''),
      (''css.properties.display'', ''CSS Display Property''),
      (''js.syntax.optional-chaining'', ''Optional chaining (?.)''),
      (''js.syntax.top-level-await'', ''Top-level await''),
      (''api.fetch'', ''Fetch API''),
      (''api.service-worker'', ''Service Worker''),
      (''html.elements.dialog'', ''<dialog> element''),
      (''css.selectors.has'', '':has() selector''),
      (''api.view-transitions'', ''View Transitions API''),
      (''css.functions.clamp'', ''CSS clamp()'')]"

record DedupState =
  allUsedFeatureIds :: "id_value set"
  allUsedFeatureNames :: "string set"

definition initialState :: DedupState where
  "initialState = \<lparr>allUsedFeatureIds = {}, allUsedFeatureNames = {}\<rparr>"

fun truthyId :: "id_value option \<Rightarrow> bool" where
  \<comment> \<open>truthiness of \<^verbatim>\<open>f.featureId\<close>: neither \<^verbatim>\<open>undefined\<close> nor the empty string\<close>
  "truthyId None = False"
| "truthyId (Some v) = truthy v"

definition orElse :: "id_value option \<Rightarrow> id_value option \<Rightarrow> id_value option" where
  \<comment> \<open>\<^verbatim>\<open>a || b\<close>\<close>
  "orElse a b = (if truthyId a then a else b)"

definition nullish :: "'a option \<Rightarrow> 'a option \<Rightarrow> 'a option" where
  \<comment> \<open>\<^verbatim>\<open>a ?? b\<close>\<close>
  "nullish a b = (case a of Some x \<Rightarrow> Some x | None \<Rightarrow> b)"

definition enrichFeature :: "FeatureMention \<Rightarrow> FeatureMention" where
  \<comment> \<open>the callback of \<^verbatim>\<open>existing.map\<close>\<close>
  "enrichFeature f =
     (let byId = (case featureId f of
                    Some v \<Rightarrow> if truthy v then getFeatureBaselineStatus v else None
                  | None \<Rightarrow> None);
          byName = (if byId = None \<and> name f \<noteq> [] then getFeatureBaselineByName (name f)
                    else None);
          resolvedId = orElse (featureId f)
                         (if name f \<noteq> [] then resolveFeatureIdByName (name f) else None)
      in f\<lparr>featureId := orElse resolvedId (featureId f),
            baseline := nullish (baseline f) (nullish byId byName)\<rparr>)"

definition normalizedNameOf :: "string \<Rightarrow> string" where
  \<comment> \<open>\<^verbatim>\<open>name.toLowerCase().trim()\<close>\<close>
  "normalizedNameOf s = trim (toLowerCase s)"

definition stripPunctuation :: "string \<Rightarrow> string" where
  \<comment> \<open>\<^verbatim>\<open>.replace(/[^\w\s]/g, "")\<close>\<close>
  "stripPunctuation s = filter (\<lambda>c. isWord c \<or> isSpace c) s"

definition isVariation :: "string \<Rightarrow> string \<Rightarrow> bool" where
  \<comment> \<open>the callback of \<^verbatim>\<open>some\<close>\<close>
  "isVariation normalizedName existingName =
     (js_includes normalizedName existingName \<or>
      js_includes existingName normalizedName \<or>
      js_includes (stripPunctuation normalizedName) (stripPunctuation existingName) \<or>
      js_includes (stripPunctuation existingName) (stripPunctuation normalizedName))"

definition isVariationOfExisting :: "DedupState \<Rightarrow> string \<Rightarrow> bool" where
  "isVariationOfExisting st normalizedName =
     (\<exists>existingName \<in> allUsedFeatureNames st. isVariation normalizedName existingName)"

definition markUsed :: "id_value option \<Rightarrow> string \<Rightarrow> DedupState \<Rightarrow> DedupState" where
  \<comment> \<open>\<^verbatim>\<open>if (f.featureId) allUsedFeatureIds.add(f.featureId); allUsedFeatureNames.add(n)\<close>\<close>
  "markUsed i n st =
     st\<lparr>allUsedFeatureIds :=
           (case i of Some v \<Rightarrow> if truthy v then insert v (allUsedFeatureIds st)
                                 else allUsedFeatureIds st
                    | None \<Rightarrow> allUsedFeatureIds st),
         allUsedFeatureNames := insert n (allUsedFeatureNames st)\<rparr>"

definition idUsed :: "DedupState \<Rightarrow> id_value option \<Rightarrow> bool" where
  \<comment> \<open>\<^verbatim>\<open>f.featureId && allUsedFeatureIds.has(f.featureId)\<close>\<close>
  "idUsed st i = (case i of Some v \<Rightarrow> truthy v \<and> v \<in> allUsedFeatureIds st | None \<Rightarrow> False)"

definition keepFeature :: "DedupState \<Rightarrow> FeatureMention \<Rightarrow> bool \<times> DedupState" where
  \<comment> \<open>the callback of \<^verbatim>\<open>filter\<close>: the verdict and the used-sets after it\<close>
  "keepFeature st f =
     (let normalizedName = normalizedNameOf (name f);
          isVariationOfExisting = isVariationOfExisting st normalizedName
      in if idUsed st (featureId f) then (False, st)
         else if normalizedName \<in> allUsedFeatureNames st \<or> isVariationOfExisting
         then (False, st)
         else (True, markUsed (featureId f) normalizedName st))"

fun filterFeatures :: "DedupState \<Rightarrow> FeatureMention list \<Rightarrow> FeatureMention list \<times> DedupState" where
  "filterFeatures st [] = ([], st)"
| "filterFeatures st (f # fs) =
     (case keepFeature st f of
        (keep, st1) \<Rightarrow>
          (case filterFeatures st1 fs of
             (kept, st2) \<Rightarrow> (if keep then f # kept else kept, st2)))"

definition pickUsed :: "DedupState \<Rightarrow> string \<times> string \<Rightarrow> bool" where
  \<comment> \<open>\<^verbatim>\<open>allUsedFeatureIds.has(pick.featureId) ||
      allUsedFeatureNames.has(pick.name.toLowerCase().trim())\<close>\<close>
  "pickUsed st pick =
     (IdString (fst pick) \<in> allUsedFeatureIds st \<or>
      normalizedNameOf (snd pick) \<in> allUsedFeatureNames st)"

function findPick :: "DedupState \<Rightarrow> nat \<Rightarrow> nat \<Rightarrow> string \<times> string" where
  \<comment> \<open>the \<^verbatim>\<open>do ... while\<close> loop; \<open>start\<close> is \<^verbatim>\<open>idx + i\<close>\<close>
  "findPick st start attempts =
     (let pick = demoPool ! ((start + attempts) mod length demoPool);
          attempts1 = attempts + 1
      in if pickUsed st pick \<and> attempts1 < length demoPool
         then findPick st start attempts1
         else pick)"
  by pat_completeness auto
termination
  by (relation "measure (\<lambda>(st, start, attempts). length demoPool - attempts)") auto

declare findPick.simps [simp del]

definition markPick :: "string \<times> string \<Rightarrow> DedupState \<Rightarrow> DedupState" where
  \<comment> \<open>\<^verbatim>\<open>allUsedFeatureIds.add(pick.featureId);
      allUsedFeatureNames.add(normalizedPickName)\<close>\<close>
  "markPick pick st =
     st\<lparr>allUsedFeatureIds := insert (IdString (fst pick)) (allUsedFeatureIds st),
         allUsedFeatureNames := insert (normalizedNameOf (snd pick)) (allUsedFeatureNames st)\<rparr>"

definition filler :: "string \<times> string \<Rightarrow> FeatureMention" where
  \<comment> \<open>\<^verbatim>\<open>{ ...pick, baseline: getFeatureBaselineStatus(pick.featureId) }\<close>\<close>
  "filler pick =
     \<lparr>name = snd pick, featureId = Some (IdString (fst pick)),
      baseline = getFeatureBaselineStatus (IdString (fst pick))\<rparr>"

function fillLoop ::
  "DedupState \<Rightarrow> nat \<Rightarrow> nat \<Rightarrow> nat \<Rightarrow> FeatureMention list \<Rightarrow> FeatureMention list \<times> DedupState" where
  \<comment> \<open>the \<^verbatim>\<open>for (let i = 0; i < needed; i++)\<close> loop\<close>
  "fillLoop st idx needed i fillers =
     (if i < needed then
        (let pick = findPick st (idx + i) 0;
             normalizedPickName = normalizedNameOf (snd pick)
         in if IdString (fst pick) \<notin> allUsedFeatureIds st \<and>
               normalizedPickName \<notin> allUsedFeatureNames st
            then fillLoop (markPick pick st) idx needed (i + 1) (fillers @ [filler pick])
            else fillLoop st idx needed (i + 1) fillers)
      else (fillers, st))"
  by pat_completeness auto
termination
  by (relation "measure (\<lambda>(st, idx, needed, i, fillers). needed - i)") auto

declare fillLoop.simps [simp del]

definition sectionFeatures :: "'a PlanSection_scheme \<Rightarrow> FeatureMention list" where
  \<comment> \<open>\<^verbatim>\<open>Array.isArray(section.webFeatures) ? section.webFeatures : []\<close>\<close>
  "sectionFeatures s = (case webFeatures s of Some fs \<Rightarrow> fs | None \<Rightarrow> [])"

definition processSection ::
  "nat \<Rightarrow> 'a PlanSection_scheme \<Rightarrow> DedupState \<Rightarrow> 'a PlanSection_scheme \<times> DedupState" where
  \<comment> \<open>the callback of \<^verbatim>\<open>plan.forEach\<close>; \<^verbatim>\<open>Math.max(0, 2 - n)\<close> is the
      truncating subtraction of \<^typ>\<open>nat\<close>\<close>
  "processSection idx s st =
     (case filterFeatures st (map enrichFeature (sectionFeatures s)) of
        (enrichedExisting, st1) \<Rightarrow>
          (case fillLoop st1 idx (2 - length enrichedExisting) 0 [] of
             (fillers, st2) \<Rightarrow>
               (s\<lparr>webFeatures := Some (enrichedExisting @ fillers)\<rparr>, st2)))"

fun forEachSection ::
  "nat \<Rightarrow> DedupState \<Rightarrow> 'a PlanSection_scheme list \<Rightarrow> 'a PlanSection_scheme list \<times> DedupState" where
  "forEachSection idx st [] = ([], st)"
| "forEachSection idx st (s # ss) =
     (case processSection idx s st of
        (s1, st1) \<Rightarrow>
          (case forEachSection (idx + 1) st1 ss of
             (ss1, st2) \<Rightarrow> (s1 # ss1, st2)))"


section \<open>Declared aliases\<close>

text \<open>
  The strings that a dataset record declares, each with the id of the record: the title
  first, then the aliases, as \<^const>\<open>addRecord\<close> visits them.
\<close>

definition recordDeclarations :: "WebFeatureRecord \<Rightarrow> (string \<times> string) list" where
  "recordDeclarations r =
     (rec_title r, rec_id r) #
     (case rec_aliases r of Some as \<Rightarrow> map (\<lambda>a. (a, rec_id r)) as | None \<Rightarrow> [])"

definition declarationsOf :: "(string \<times> WebFeatureRecord) list \<Rightarrow> (string \<times> string) list" where
  "declarationsOf dataset = concat (map (\<lambda>kr. recordDeclarations (snd kr)) dataset)"

definition datasetDeclarations :: "(string \<times> string) list" where
  "datasetDeclarations = declarationsOf WEB_FEATURES_DATA"

definition normalizeKey :: "string \<times> string \<Rightarrow> string \<times> string" where
  "normalizeKey d = (normalize (fst d), snd d)"

text \<open>
  A list of pairs is single-valued when no key occurs in it with two different values.
\<close>

fun agreesWith :: "string \<times> string \<Rightarrow> (string \<times> string) list \<Rightarrow> bool" where
  "agreesWith d [] = True"
| "agreesWith d (e # es) =
     ((if fst e = fst d then snd e = snd d else True) \<and> agreesWith d es)"

fun crossAgree :: "(string \<times> string) list \<Rightarrow> (string \<times> string) list \<Rightarrow> bool" where
  "crossAgree [] es = True"
| "crossAgree (d # ds) es = (agreesWith d es \<and> crossAgree ds es)"

fun singleValued :: "(string \<times> string) list \<Rightarrow> bool" where
  "singleValued [] = True"
| "singleValued (d # ds) = (agreesWith d ds \<and> singleValued ds)"

section \<open>Notions for the properties of the pass\<close>

abbreviation nameKey :: "FeatureMention \<Rightarrow> string" where
  "nameKey f \<equiv> normalizedNameOf (name f)"

abbreviation stateLe :: "DedupState \<Rightarrow> DedupState \<Rightarrow> bool" where
  "stateLe a b \<equiv>
     allUsedFeatureIds a \<subseteq> allUsedFeatureIds b \<and>
     allUsedFeatureNames a \<subseteq> allUsedFeatureNames b"

text \<open>
  A mention is fresh for the used-sets when neither its normalized name nor its feature id
  is in them, and recorded in them when both are (the id when it has one).
\<close>

abbreviation fresh :: "DedupState \<Rightarrow> FeatureMention \<Rightarrow> bool" where
  "fresh st f \<equiv> nameKey f \<notin> allUsedFeatureNames st \<and> \<not> idUsed st (featureId f)"

abbreviation recorded :: "DedupState \<Rightarrow> FeatureMention \<Rightarrow> bool" where
  "recorded st f \<equiv>
     nameKey f \<in> allUsedFeatureNames st \<and>
     (truthyId (featureId f) \<longrightarrow> featureId f \<in> Some ` allUsedFeatureIds st)"

section \<open>Evaluation of the string functions and of the tables\<close>

text \<open>
  The character classes on the printable ASCII characters, one equation per character, so
  that a string function on a literal is evaluated by rewriting.
\<close>

lemma toLowerChar_ascii:
  "toLowerChar (CHR 0x20) = CHR 0x20"
  "toLowerChar (CHR ''!'') = CHR ''!''"
  "toLowerChar (CHR 0x22) = CHR 0x22"
  "toLowerChar (CHR ''#'') = CHR ''#''"
  "toLowerChar (CHR ''$'') = CHR ''$''"
  "toLowerChar (CHR ''%'') = CHR ''%''"
  "toLowerChar (CHR ''&'') = CHR ''&''"
  "toLowerChar (CHR 0x27) = CHR 0x27"
  "toLowerChar (CHR ''('') = CHR ''(''"
  "toLowerChar (CHR '')'') = CHR '')''"
  "toLowerChar (CHR ''*'') = CHR ''*''"
  "toLowerChar (CHR ''+'') = CHR ''+''"
  "toLowerChar (CHR '','') = CHR '',''"
  "toLowerChar (CHR ''-'') = CHR ''-''"
  "toLowerChar (CHR ''.'') = CHR ''.''"
  "toLowerChar (CHR ''/'') = CHR ''/''"
  "toLowerChar (CHR ''0'') = CHR ''0''"
  "toLowerChar (CHR ''1'') = CHR ''1''"
  "toLowerChar (CHR ''2'') = CHR ''2''"
  "toLowerChar (CHR ''3'') = CHR ''3''"
  "toLowerChar (CHR ''4'') = CHR ''4''"
  "toLowerChar (CHR ''5'') = CHR ''5''"
  "toLowerChar (CHR ''6'') = CHR ''6''"
  "toLowerChar (CHR ''7'') = CHR ''7''"
  "toLowerChar (CHR ''8'') = CHR ''8''"
  "toLowerChar (CHR ''9'') = CHR ''9''"
  "toLowerChar (CHR '':'') = CHR '':''"
  "toLowerChar (CHR '';'') = CHR '';''"
  "toLowerChar (CHR ''<'') = CHR ''<''"
  "toLowerChar (CHR ''='') = CHR ''=''"
  "toLowerChar (CHR ''>'') = CHR ''>''"
  "toLowerChar (CHR ''?'') = CHR ''?''"
  "toLowerChar (CHR ''@'') = CHR ''@''"
  "toLowerChar (CHR ''A'') = CHR ''a''"
  "toLowerChar (CHR ''B'') = CHR ''b''"
  "toLowerChar (CHR ''C'') = CHR ''c''"
  "toLowerChar (CHR ''D'') = CHR ''d''"
  "toLowerChar (CHR ''E'') = CHR ''e''"
  "toLowerChar (CHR ''F'') = CHR ''f''"
  "toLowerChar (CHR ''G'') = CHR ''g''"
  "toLowerChar (CHR ''H'') = CHR ''h''"
  "toLowerChar (CHR ''I'') = CHR ''i''"
  "toLowerChar (CHR ''J'') = CHR ''j''"
  "toLowerChar (CHR ''K'') = CHR ''k''"
  "toLowerChar (CHR ''L'') = CHR ''l''"
  "toLowerChar (CHR ''M'') = CHR ''m''"
  "toLowerChar (CHR ''N'') = CHR ''n''"
  "toLowerChar (CHR ''O'') = CHR ''o''"
  "toLowerChar (CHR ''P'') = CHR ''p''"
  "toLowerChar (CHR ''Q'') = CHR ''q''"
  "toLowerChar (CHR ''R'') = CHR ''r''"
  "toLowerChar (CHR ''S'') = CHR ''s''"
  "toLowerChar (CHR ''T'') = CHR ''t''"
  "toLowerChar (CHR ''U'') = CHR ''u''"
  "toLowerChar (CHR ''V'') = CHR ''v''"
  "toLowerChar (CHR ''W'') = CHR ''w''"
  "toLowerChar (CHR ''X'') = CHR ''x''"
  "toLowerChar (CHR ''Y'') = CHR ''y''"
  "toLowerChar (CHR ''Z'') = CHR ''z''"
  "toLowerChar (CHR ''['') = CHR ''[''"
  "toLowerChar (CHR 0x5C) = CHR 0x5C"
  "toLowerChar (CHR '']'') = CHR '']''"
  "toLowerChar (CHR ''^'') = CHR ''^''"
  "toLowerChar (CHR ''_'') = CHR ''_''"
  "toLowerChar (CHR 0x60) = CHR 0x60"
  "toLowerChar (CHR ''a'') = CHR ''a''"
  "toLowerChar (CHR ''b'') = CHR ''b''"
  "toLowerChar (CHR ''c'') = CHR ''c''"
  "toLowerChar (CHR ''d'') = CHR ''d''"
  "toLowerChar (CHR ''e'') = CHR ''e''"
  "toLowerChar (CHR ''f'') = CHR ''f''"
  "toLowerChar (CHR ''g'') = CHR ''g''"
  "toLowerChar (CHR ''h'') = CHR ''h''"
  "toLowerChar (CHR ''i'') = CHR ''i''"
  "toLowerChar (CHR ''j'') = CHR ''j''"
  "toLowerChar (CHR ''k'') = CHR ''k''"
  "toLowerChar (CHR ''l'') = CHR ''l''"
  "toLowerChar (CHR ''m'') = CHR ''m''"
  "toLowerChar (CHR ''n'') = CHR ''n''"
  "toLowerChar (CHR ''o'') = CHR ''o''"
  "toLowerChar (CHR ''p'') = CHR ''p''"
  "toLowerChar (CHR ''q'') = CHR ''q''"
  "toLowerChar (CHR ''r'') = CHR ''r''"
  "toLowerChar (CHR ''s'') = CHR ''s''"
  "toLowerChar (CHR ''t'') = CHR ''t''"
  "toLowerChar (CHR ''u'') = CHR ''u''"
  "toLowerChar (CHR ''v'') = CHR ''v''"
  "toLowerChar (CHR ''w'') = CHR ''w''"
  "toLowerChar (CHR ''x'') = CHR ''x''"
  "toLowerChar (CHR ''y'') = CHR ''y''"
  "toLowerChar (CHR ''z'') = CHR ''z''"
  "toLowerChar (CHR ''{'') = CHR ''{''"
  "toLowerChar (CHR ''|'') = CHR ''|''"
  "toLowerChar (CHR ''}'') = CHR ''}''"
  "toLowerChar (CHR ''~'') = CHR ''~''"
  by (simp_all only: toLowerChar_def asciiUpper_def asciiLower_def latin1Upper_def latin1Lower_def append.simps zip_Cons_Cons zip_Nil map_of.simps fun_upd_apply fst_conv snd_conv option.case if_True if_False char.inject simp_thms)

lemma isSpace_ascii:
  "isSpace (CHR 0x20)"
  "\<not> isSpace (CHR ''!'')"
  "\<not> isSpace (CHR 0x22)"
  "\<not> isSpace (CHR ''#'')"
  "\<not> isSpace (CHR ''$'')"
  "\<not> isSpace (CHR ''%'')"
  "\<not> isSpace (CHR ''&'')"
  "\<not> isSpace (CHR 0x27)"
  "\<not> isSpace (CHR ''('')"
  "\<not> isSpace (CHR '')'')"
  "\<not> isSpace (CHR ''*'')"
  "\<not> isSpace (CHR ''+'')"
  "\<not> isSpace (CHR '','')"
  "\<not> isSpace (CHR ''-'')"
  "\<not> isSpace (CHR ''.'')"
  "\<not> isSpace (CHR ''/'')"
  "\<not> isSpace (CHR ''0'')"
  "\<not> isSpace (CHR ''1'')"
  "\<not> isSpace (CHR ''2'')"
  "\<not> isSpace (CHR ''3'')"
  "\<not> isSpace (CHR ''4'')"
  "\<not> isSpace (CHR ''5'')"
  "\<not> isSpace (CHR ''6'')"
  "\<not> isSpace (CHR ''7'')"
  "\<not> isSpace (CHR ''8'')"
  "\<not> isSpace (CHR ''9'')"
  "\<not> isSpace (CHR '':'')"
  "\<not> isSpace (CHR '';'')"
  "\<not> isSpace (CHR ''<'')"
  "\<not> isSpace (CHR ''='')"
  "\<not> isSpace (CHR ''>'')"
  "\<not> isSpace (CHR ''?'')"
  "\<not> isSpace (CHR ''@'')"
  "\<not> isSpace (CHR ''A'')"
  "\<not> isSpace (CHR ''B'')"
  "\<not> isSpace (CHR ''C'')"
  "\<not> isSpace (CHR ''D'')"
  "\<not> isSpace (CHR ''E'')"
  "\<not> isSpace (CHR ''F'')"
  "\<not> isSpace (CHR ''G'')"
  "\<not> isSpace (CHR ''H'')"
  "\<not> isSpace (CHR ''I'')"
  "\<not> isSpace (CHR ''J'')"
  "\<not> isSpace (CHR ''K'')"
  "\<not> isSpace (CHR ''L'')"
  "\<not> isSpace (CHR ''M'')"
  "\<not> isSpace (CHR ''N'')"
  "\<not> isSpace (CHR ''O'')"
  "\<not> isSpace (CHR ''P'')"
  "\<not> isSpace (CHR ''Q'')"
  "\<not> isSpace (CHR ''R'')"
  "\<not> isSpace (CHR ''S'')"
  "\<not> isSpace (CHR ''T'')"
  "\<not> isSpace (CHR ''U'')"
  "\<not> isSpace (CHR ''V'')"
  "\<not> isSpace (CHR ''W'')"
  "\<not> isSpace (CHR ''X'')"
  "\<not> isSpace (CHR ''Y'')"
  "\<not> isSpace (CHR ''Z'')"
  "\<not> isSpace (CHR ''['')"
  "\<not> isSpace (CHR 0x5C)"
  "\<not> isSpace (CHR '']'')"
  "\<not> isSpace (CHR ''^'')"
  "\<not> isSpace (CHR ''_'')"
  "\<not> isSpace (CHR 0x60)"
  "\<not> isSpace (CHR ''a'')"
  "\<not> isSpace (CHR ''b'')"
  "\<not> isSpace (CHR ''c'')"
  "\<not> isSpace (CHR ''d'')"
  "\<not> isSpace (CHR ''e'')"
  "\<not> isSpace (CHR ''f'')"
  "\<not> isSpace (CHR ''g'')"
  "\<not> isSpace (CHR ''h'')"
  "\<not> isSpace (CHR ''i'')"
  "\<not> isSpace (CHR ''j'')"
  "\<not> isSpace (CHR ''k'')"
  "\<not> isSpace (CHR ''l'')"
  "\<not> isSpace (CHR ''m'')"
  "\<not> isSpace (CHR ''n'')"
  "\<not> isSpace (CHR ''o'')"
  "\<not> isSpace (CHR ''p'')"
  "\<not> isSpace (CHR ''q'')"
  "\<not> isSpace (CHR ''r'')"
  "\<not> isSpace (CHR ''s'')"
  "\<not> isSpace (CHR ''t'')"
  "\<not> isSpace (CHR ''u'')"
  "\<not> isSpace (CHR ''v'')"
  "\<not> isSpace (CHR ''w'')"
  "\<not> isSpace (CHR ''x'')"
  "\<not> isSpace (CHR ''y'')"
  "\<not> isSpace (CHR ''z'')"
  "\<not> isSpace (CHR ''{'')"
  "\<not> isSpace (CHR ''|'')"
  "\<not> isSpace (CHR ''}'')"
  "\<not> isSpace (CHR ''~'')"
  by (simp_all only: isSpace_def whiteSpace_def list.set insert_iff empty_iff char.inject simp_thms)

lemma isLowerAlnum_ascii:
  "\<not> isLowerAlnum (CHR 0x20)"
  "\<not> isLowerAlnum (CHR ''!'')"
  "\<not> isLowerAlnum (CHR 0x22)"
  "\<not> isLowerAlnum (CHR ''#'')"
  "\<not> isLowerAlnum (CHR ''$'')"
  "\<not> isLowerAlnum (CHR ''%'')"
  "\<not> isLowerAlnum (CHR ''&'')"
  "\<not> isLowerAlnum (CHR 0x27)"
  "\<not> isLowerAlnum (CHR ''('')"
  "\<not> isLowerAlnum (CHR '')'')"
  "\<not> isLowerAlnum (CHR ''*'')"
  "\<not> isLowerAlnum (CHR ''+'')"
  "\<not> isLowerAlnum (CHR '','')"
  "\<not> isLowerAlnum (CHR ''-'')"
  "\<not> isLowerAlnum (CHR ''.'')"
  "\<not> isLowerAlnum (CHR ''/'')"
  "isLowerAlnum (CHR ''0'')"
  "isLowerAlnum (CHR ''1'')"
  "isLowerAlnum (CHR ''2'')"
  "isLowerAlnum (CHR ''3'')"
  "isLowerAlnum (CHR ''4'')"
  "isLowerAlnum (CHR ''5'')"
  "isLowerAlnum (CHR ''6'')"
  "isLowerAlnum (CHR ''7'')"
  "isLowerAlnum (CHR ''8'')"
  "isLowerAlnum (CHR ''9'')"
  "\<not> isLowerAlnum (CHR '':'')"
  "\<not> isLowerAlnum (CHR '';'')"
  "\<not> isLowerAlnum (CHR ''<'')"
  "\<not> isLowerAlnum (CHR ''='')"
  "\<not> isLowerAlnum (CHR ''>'')"
  "\<not> isLowerAlnum (CHR ''?'')"
  "\<not> isLowerAlnum (CHR ''@'')"
  "\<not> isLowerAlnum (CHR ''A'')"
  "\<not> isLowerAlnum (CHR ''B'')"
  "\<not> isLowerAlnum (CHR ''C'')"
  "\<not> isLowerAlnum (CHR ''D'')"
  "\<not> isLowerAlnum (CHR ''E'')"
  "\<not> isLowerAlnum (CHR ''F'')"
  "\<not> isLowerAlnum (CHR ''G'')"
  "\<not> isLowerAlnum (CHR ''H'')"
  "\<not> isLowerAlnum (CHR ''I'')"
  "\<not> isLowerAlnum (CHR ''J'')"
  "\<not> isLowerAlnum (CHR ''K'')"
  "\<not> isLowerAlnum (CHR ''L'')"
  "\<not> isLowerAlnum (CHR ''M'')"
  "\<not> isLowerAlnum (CHR ''N'')"
  "\<not> isLowerAlnum (CHR ''O'')"
  "\<not> isLowerAlnum (CHR ''P'')"
  "\<not> isLowerAlnum (CHR ''Q'')"
  "\<not> isLowerAlnum (CHR ''R'')"
  "\<not> isLowerAlnum (CHR ''S'')"
  "\<not> isLowerAlnum (CHR ''T'')"
  "\<not> isLowerAlnum (CHR ''U'')"
  "\<not> isLowerAlnum (CHR ''V'')"
  "\<not> isLowerAlnum (CHR ''W'')"
  "\<not> isLowerAlnum (CHR ''X'')"
  "\<not> isLowerAlnum (CHR ''Y'')"
  "\<not> isLowerAlnum (CHR ''Z'')"
  "\<not> isLowerAlnum (CHR ''['')"
  "\<not> isLowerAlnum (CHR 0x5C)"
  "\<not> isLowerAlnum (CHR '']'')"
  "\<not> isLowerAlnum (CHR ''^'')"
  "\<not> isLowerAlnum (CHR ''_'')"
  "\<not> isLowerAlnum (CHR 0x60)"
  "isLowerAlnum (CHR ''a'')"
  "isLowerAlnum (CHR ''b'')"
  "isLowerAlnum (CHR ''c'')"
  "isLowerAlnum (CHR ''d'')"
  "isLowerAlnum (CHR ''e'')"
  "isLowerAlnum (CHR ''f'')"
  "isLowerAlnum (CHR ''g'')"
  "isLowerAlnum (CHR ''h'')"
  "isLowerAlnum (CHR ''i'')"
  "isLowerAlnum (CHR ''j'')"
  "isLowerAlnum (CHR ''k'')"
  "isLowerAlnum (CHR ''l'')"
  "isLowerAlnum (CHR ''m'')"
  "isLowerAlnum (CHR ''n'')"
  "isLowerAlnum (CHR ''o'')"
  "isLowerAlnum (CHR ''p'')"
  "isLowerAlnum (CHR ''q'')"
  "isLowerAlnum (CHR ''r'')"
  "isLowerAlnum (CHR ''s'')"
  "isLowerAlnum (CHR ''t'')"
  "isLowerAlnum (CHR ''u'')"
  "isLowerAlnum (CHR ''v'')"
  "isLowerAlnum (CHR ''w'')"
  "isLowerAlnum (CHR ''x'')"
  "isLowerAlnum (CHR ''y'')"
  "isLowerAlnum (CHR ''z'')"
  "\<not> isLowerAlnum (CHR ''{'')"
  "\<not> isLowerAlnum (CHR ''|'')"
  "\<not> isLowerAlnum (CHR ''}'')"
  "\<not> isLowerAlnum (CHR ''~'')"
  by (simp_all only: isLowerAlnum_def asciiLower_def digits_def append.simps list.set insert_iff empty_iff char.inject simp_thms)

lemma isWord_ascii:
  "\<not> isWord (CHR 0x20)"
  "\<not> isWord (CHR ''!'')"
  "\<not> isWord (CHR 0x22)"
  "\<not> isWord (CHR ''#'')"
  "\<not> isWord (CHR ''$'')"
  "\<not> isWord (CHR ''%'')"
  "\<not> isWord (CHR ''&'')"
  "\<not> isWord (CHR 0x27)"
  "\<not> isWord (CHR ''('')"
  "\<not> isWord (CHR '')'')"
  "\<not> isWord (CHR ''*'')"
  "\<not> isWord (CHR ''+'')"
  "\<not> isWord (CHR '','')"
  "\<not> isWord (CHR ''-'')"
  "\<not> isWord (CHR ''.'')"
  "\<not> isWord (CHR ''/'')"
  "isWord (CHR ''0'')"
  "isWord (CHR ''1'')"
  "isWord (CHR ''2'')"
  "isWord (CHR ''3'')"
  "isWord (CHR ''4'')"
  "isWord (CHR ''5'')"
  "isWord (CHR ''6'')"
  "isWord (CHR ''7'')"
  "isWord (CHR ''8'')"
  "isWord (CHR ''9'')"
  "\<not> isWord (CHR '':'')"
  "\<not> isWord (CHR '';'')"
  "\<not> isWord (CHR ''<'')"
  "\<not> isWord (CHR ''='')"
  "\<not> isWord (CHR ''>'')"
  "\<not> isWord (CHR ''?'')"
  "\<not> isWord (CHR ''@'')"
  "isWord (CHR ''A'')"
  "isWord (CHR ''B'')"
  "isWord (CHR ''C'')"
  "isWord (CHR ''D'')"
  "isWord (CHR ''E'')"
  "isWord (CHR ''F'')"
  "isWord (CHR ''G'')"
  "isWord (CHR ''H'')"
  "isWord (CHR ''I'')"
  "isWord (CHR ''J'')"
  "isWord (CHR ''K'')"
  "isWord (CHR ''L'')"
  "isWord (CHR ''M'')"
  "isWord (CHR ''N'')"
  "isWord (CHR ''O'')"
  "isWord (CHR ''P'')"
  "isWord (CHR ''Q'')"
  "isWord (CHR ''R'')"
  "isWord (CHR ''S'')"
  "isWord (CHR ''T'')"
  "isWord (CHR ''U'')"
  "isWord (CHR ''V'')"
  "isWord (CHR ''W'')"
  "isWord (CHR ''X'')"
  "isWord (CHR ''Y'')"
  "isWord (CHR ''Z'')"
  "\<not> isWord (CHR ''['')"
  "\<not> isWord (CHR 0x5C)"
  "\<not> isWord (CHR '']'')"
  "\<not> isWord (CHR ''^'')"
  "isWord (CHR ''_'')"
  "\<not> isWord (CHR 0x60)"
  "isWord (CHR ''a'')"
  "isWord (CHR ''b'')"
  "isWord (CHR ''c'')"
  "isWord (CHR ''d'')"
  "isWord (CHR ''e'')"
  "isWord (CHR ''f'')"
  "isWord (CHR ''g'')"
  "isWord (CHR ''h'')"
  "isWord (CHR ''i'')"
  "isWord (CHR ''j'')"
  "isWord (CHR ''k'')"
  "isWord (CHR ''l'')"
  "isWord (CHR ''m'')"
  "isWord (CHR ''n'')"
  "isWord (CHR ''o'')"
  "isWord (CHR ''p'')"
  "isWord (CHR ''q'')"
  "isWord (CHR ''r'')"
  "isWord (CHR ''s'')"
  "isWord (CHR ''t'')"
  "isWord (CHR ''u'')"
  "isWord (CHR ''v'')"
  "isWord (CHR ''w'')"
  "isWord (CHR ''x'')"
  "isWord (CHR ''y'')"
  "isWord (CHR ''z'')"
  "\<not> isWord (CHR ''{'')"
  "\<not> isWord (CHR ''|'')"
  "\<not> isWord (CHR ''}'')"
  "\<not> isWord (CHR ''~'')"
  by (simp_all only: isWord_def asciiUpper_def asciiLower_def digits_def append.simps list.set insert_iff empty_iff char.inject simp_thms)

lemmas char_facts = toLowerChar_ascii isSpace_ascii isLowerAlnum_ascii isWord_ascii

lemmas string_eval =
  normalize_def normalizedNameOf_def stripPunctuation_def toLowerCase_def trim_def char_facts

text \<open>The rules that decide the equality of two string literals.\<close>

lemmas literal_eq = list.inject list.distinct char.inject simp_thms

text \<open>
  The facts about the two alias tables that need their contents. The declarations of the
  dataset are split at the alias \<open>responsive images\<close> of the record
  \<open>html.elements.img.srcset\<close>, which the record \<open>html.elements.img.sizes\<close>
  declares again: apart from it, no key is declared with two different ids.
\<close>

lemma alias_tables:
  "\<exists>DA DB.
     datasetDeclarations = DA @ (''responsive images'', ''html.elements.img.srcset'') # DB \<and>
     singleValued (manualAlias @ map normalizeKey DA @ map normalizeKey DB) \<and>
     (''responsive images'', ''html.elements.img.sizes'') \<in> set (map normalizeKey DB) \<and>
     (''navigatorclipboard'', ''api.clipboard'') \<in> set (map normalizeKey DB) \<and>
     ([], ''js.syntax.optional-chaining'') \<in> set (map normalizeKey DB) \<and>
     (\<forall>d \<in> set (manualAlias @ map normalizeKey DA @ map normalizeKey DB).
        snd d \<noteq> [] \<and> fst d \<noteq> ''dark modetheming'') \<and>
     (''CSS Grid Layout'', ''css.properties.grid'') \<in> set DA \<and>
     (''grid'', ''css.properties.grid'') \<in> set DA"
proof -
  let ?DA =
    "[(''CSS Display Property'', ''css.properties.display''),
      (''display'', ''css.properties.display''),
      (''css display'', ''css.properties.display''),
      (''CSS Grid Layout'', ''css.properties.grid''), (''grid'', ''css.properties.grid''),
      (''grid layout'', ''css.properties.grid''), (''css grid'', ''css.properties.grid''),
      (''CSS Flexbox'', ''css.properties.flexbox''),
      (''flex'', ''css.properties.flexbox''), (''flexbox'', ''css.properties.flexbox''),
      (''flex layout'', ''css.properties.flexbox''),
      (''css flexbox'', ''css.properties.flexbox''),
      (''CSS Container Queries'', ''css.properties.container-query''),
      (''container queries'', ''css.properties.container-query''),
      (''container query'', ''css.properties.container-query''),
      (''CSS Aspect Ratio'', ''css.properties.aspect-ratio''),
      (''aspect ratio'', ''css.properties.aspect-ratio''),
      (''aspect-ratio'', ''css.properties.aspect-ratio''),
      (''CSS position: sticky'', ''css.properties.position-sticky''),
      (''sticky'', ''css.properties.position-sticky''),
      (''position sticky'', ''css.properties.position-sticky''),
      (''Dark Mode (prefers-color-scheme)'', ''css.media.prefers-color-scheme''),
      (''dark mode'', ''css.media.prefers-color-scheme''),
      (''theming'', ''css.media.prefers-color-scheme''),
      (''prefers-color-scheme'', ''css.media.prefers-color-scheme''),
      (''CSS color-scheme'', ''css.properties.color-scheme''),
      (''color scheme'', ''css.properties.color-scheme''),
      (''color-scheme'', ''css.properties.color-scheme''),
      (''CSS Custom Properties (Variables)'', ''css.custom-properties''),
      (''css variables'', ''css.custom-properties''),
      (''custom properties'', ''css.custom-properties''),
      (''variables'', ''css.custom-properties''),
      (''CSS Media Queries'', ''css.at-rules.media''),
      (''media queries'', ''css.at-rules.media''),
      (''responsive'', ''css.at-rules.media''), (''@media'', ''css.at-rules.media''),
      (''CSS clamp()'', ''css.functions.clamp''), (''clamp'', ''css.functions.clamp''),
      (''fluid typography'', ''css.functions.clamp''),
      ('':has() selector'', ''css.selectors.has''), ('':has'', ''css.selectors.has''),
      (''has selector'', ''css.selectors.has''),
      ('':is() selector'', ''css.selectors.is''), ('':is'', ''css.selectors.is''),
      (''is selector'', ''css.selectors.is''),
      ('':where() selector'', ''css.selectors.where''),
      ('':where'', ''css.selectors.where''), (''where selector'', ''css.selectors.where''),
      (''Responsive Images: srcset'', ''html.elements.img.srcset'')]"
  let ?DB =
    "[(''srcset'', ''html.elements.img.srcset''),
      (''Responsive Images: sizes'', ''html.elements.img.sizes''),
      (''sizes attribute'', ''html.elements.img.sizes''),
      (''responsive images'', ''html.elements.img.sizes''),
      (''<dialog> element'', ''html.elements.dialog''),
      (''dialog'', ''html.elements.dialog''), (''modal dialog'', ''html.elements.dialog''),
      (''Popover attribute'', ''html.attributes.popover''),
      (''popover'', ''html.attributes.popover''),
      (''popover attribute'', ''html.attributes.popover''),
      (''Optional chaining (?.)'', ''js.syntax.optional-chaining''),
      (''optional chaining'', ''js.syntax.optional-chaining''),
      (''?.'', ''js.syntax.optional-chaining''),
      (''safe navigation'', ''js.syntax.optional-chaining''),
      (''null conditional'', ''js.syntax.optional-chaining''),
      (''Top-level await'', ''js.syntax.top-level-await''),
      (''tla'', ''js.syntax.top-level-await''),
      (''top level await'', ''js.syntax.top-level-await''),
      (''Import Maps'', ''js.import-maps''), (''import maps'', ''js.import-maps''),
      (''Fetch API'', ''api.fetch''), (''fetch'', ''api.fetch''),
      (''AbortController'', ''api.abort-controller''),
      (''abortcontroller'', ''api.abort-controller''),
      (''abort signal'', ''api.abort-controller''), (''WebSocket'', ''api.websocket''),
      (''websocket'', ''api.websocket''), (''IndexedDB'', ''api.indexeddb''),
      (''indexeddb'', ''api.indexeddb''), (''idb'', ''api.indexeddb''),
      (''Cache Storage API'', ''api.cache-storage''),
      (''cache storage'', ''api.cache-storage''), (''caches'', ''api.cache-storage''),
      (''Service Worker'', ''api.service-worker''),
      (''service worker'', ''api.service-worker''), (''sw'', ''api.service-worker''),
      (''Web App Manifest'', ''api.web-app-manifest''),
      (''manifest.json'', ''api.web-app-manifest''),
      (''pwa manifest'', ''api.web-app-manifest''), (''Web Share API'', ''api.web-share''),
      (''navigator.share'', ''api.web-share''), (''web share'', ''api.web-share''),
      (''File System Access API'', ''api.file-system-access''),
      (''file system access'', ''api.file-system-access''),
      (''showOpenFilePicker'', ''api.file-system-access''),
      (''Content Security Policy (CSP)'', ''http.csp''), (''csp'', ''http.csp''),
      (''content security policy'', ''http.csp''),
      (''Referrer Policy'', ''http.referrer-policy''),
      (''referrer policy'', ''http.referrer-policy''),
      (''WebAuthn (Passkeys)'', ''api.webauthn''), (''webauthn'', ''api.webauthn''),
      (''passkeys'', ''api.webauthn''), (''Geolocation API'', ''api.geolocation''),
      (''geolocation'', ''api.geolocation''),
      (''Screen Wake Lock API'', ''api.screen-wake-lock''),
      (''wake lock'', ''api.screen-wake-lock''),
      (''screen wakelock'', ''api.screen-wake-lock''),
      (''MediaRecorder'', ''api.mediarecorder''),
      (''media recorder'', ''api.mediarecorder''),
      (''record media'', ''api.mediarecorder''), (''WebRTC'', ''api.webrtc''),
      (''webrtc'', ''api.webrtc''), (''rtc'', ''api.webrtc''),
      (''Media Session API'', ''api.media-session''),
      (''media session'', ''api.media-session''),
      (''View Transitions API'', ''api.view-transitions''),
      (''view transitions'', ''api.view-transitions''),
      (''document.startViewTransition'', ''api.view-transitions''),
      (''Navigation API'', ''api.navigation''), (''navigation api'', ''api.navigation''),
      (''app history'', ''api.navigation''),
      (''SharedArrayBuffer & Atomics'', ''js.sharedarraybuffer''),
      (''sharedarraybuffer'', ''js.sharedarraybuffer''),
      (''atomics'', ''js.sharedarraybuffer''),
      (''Cross-Origin-Opener-Policy (COOP)'', ''http.headers.coop''),
      (''coop'', ''http.headers.coop''),
      (''cross-origin-opener-policy'', ''http.headers.coop''),
      (''Cross-Origin-Embedder-Policy (COEP)'', ''http.headers.coep''),
      (''coep'', ''http.headers.coep''),
      (''cross-origin-embedder-policy'', ''http.headers.coep''),
      (''Cross-Origin-Resource-Policy (CORP)'', ''http.headers.corp''),
      (''corp'', ''http.headers.corp''),
      (''cross-origin-resource-policy'', ''http.headers.corp''),
      (''Async Clipboard API'', ''api.clipboard''), (''clipboard api'', ''api.clipboard''),
      (''navigator.clipboard'', ''api.clipboard''),
      (''clipboard-read'', ''api.clipboard''), (''clipboard-write'', ''api.clipboard''),
      (''ElementInternals (Custom Elements)'', ''api.elementinternals''),
      (''element internals'', ''api.elementinternals''),
      (''form-associated custom elements'', ''api.elementinternals''),
      (''ResizeObserver'', ''api.resize-observer''),
      (''resizeobserver'', ''api.resize-observer''), (''WebCodecs'', ''api.webcodecs''),
      (''web codecs'', ''api.webcodecs''), (''WebGPU'', ''api.webgpu''),
      (''wgpu'', ''api.webgpu''), (''gpu'', ''api.webgpu''),
      (''OffscreenCanvas'', ''api.offscreen-canvas''),
      (''offscreen canvas'', ''api.offscreen-canvas''),
      (''transferControlToOffscreen'', ''api.offscreen-canvas'')]"
  let ?NA =
    "[(''css display property'', ''css.properties.display''),
      (''display'', ''css.properties.display''),
      (''css display'', ''css.properties.display''),
      (''css grid layout'', ''css.properties.grid''), (''grid'', ''css.properties.grid''),
      (''grid layout'', ''css.properties.grid''), (''css grid'', ''css.properties.grid''),
      (''css flexbox'', ''css.properties.flexbox''),
      (''flex'', ''css.properties.flexbox''), (''flexbox'', ''css.properties.flexbox''),
      (''flex layout'', ''css.properties.flexbox''),
      (''css flexbox'', ''css.properties.flexbox''),
      (''css container queries'', ''css.properties.container-query''),
      (''container queries'', ''css.properties.container-query''),
      (''container query'', ''css.properties.container-query''),
      (''css aspect ratio'', ''css.properties.aspect-ratio''),
      (''aspect ratio'', ''css.properties.aspect-ratio''),
      (''aspect-ratio'', ''css.properties.aspect-ratio''),
      (''css position sticky'', ''css.properties.position-sticky''),
      (''sticky'', ''css.properties.position-sticky''),
      (''position sticky'', ''css.properties.position-sticky''),
      (''dark mode prefers-color-scheme'', ''css.media.prefers-color-scheme''),
      (''dark mode'', ''css.media.prefers-color-scheme''),
      (''theming'', ''css.media.prefers-color-scheme''),
      (''prefers-color-scheme'', ''css.media.prefers-color-scheme''),
      (''css color-scheme'', ''css.properties.color-scheme''),
      (''color scheme'', ''css.properties.color-scheme''),
      (''color-scheme'', ''css.properties.color-scheme''),
      (''css custom properties variables'', ''css.custom-properties''),
      (''css variables'', ''css.custom-properties''),
      (''custom properties'', ''css.custom-properties''),
      (''variables'', ''css.custom-properties''),
      (''css media queries'', ''css.at-rules.media''),
      (''media queries'', ''css.at-rules.media''),
      (''responsive'', ''css.at-rules.media''), (''media'', ''css.at-rules.media''),
      (''css clamp'', ''css.functions.clamp''), (''clamp'', ''css.functions.clamp''),
      (''fluid typography'', ''css.functions.clamp''),
      (''has selector'', ''css.selectors.has''), (''has'', ''css.selectors.has''),
      (''has selector'', ''css.selectors.has''), (''is selector'', ''css.selectors.is''),
      (''is'', ''css.selectors.is''), (''is selector'', ''css.selectors.is''),
      (''where selector'', ''css.selectors.where''), (''where'', ''css.selectors.where''),
      (''where selector'', ''css.selectors.where''),
      (''responsive images srcset'', ''html.elements.img.srcset'')]"
  let ?NB =
    "[(''srcset'', ''html.elements.img.srcset''),
      (''responsive images sizes'', ''html.elements.img.sizes''),
      (''sizes attribute'', ''html.elements.img.sizes''),
      (''responsive images'', ''html.elements.img.sizes''),
      (''dialog element'', ''html.elements.dialog''),
      (''dialog'', ''html.elements.dialog''), (''modal dialog'', ''html.elements.dialog''),
      (''popover attribute'', ''html.attributes.popover''),
      (''popover'', ''html.attributes.popover''),
      (''popover attribute'', ''html.attributes.popover''),
      (''optional chaining'', ''js.syntax.optional-chaining''),
      (''optional chaining'', ''js.syntax.optional-chaining''),
      ([], ''js.syntax.optional-chaining''),
      (''safe navigation'', ''js.syntax.optional-chaining''),
      (''null conditional'', ''js.syntax.optional-chaining''),
      (''top-level await'', ''js.syntax.top-level-await''),
      (''tla'', ''js.syntax.top-level-await''),
      (''top level await'', ''js.syntax.top-level-await''),
      (''import maps'', ''js.import-maps''), (''import maps'', ''js.import-maps''),
      (''fetch api'', ''api.fetch''), (''fetch'', ''api.fetch''),
      (''abortcontroller'', ''api.abort-controller''),
      (''abortcontroller'', ''api.abort-controller''),
      (''abort signal'', ''api.abort-controller''), (''websocket'', ''api.websocket''),
      (''websocket'', ''api.websocket''), (''indexeddb'', ''api.indexeddb''),
      (''indexeddb'', ''api.indexeddb''), (''idb'', ''api.indexeddb''),
      (''cache storage api'', ''api.cache-storage''),
      (''cache storage'', ''api.cache-storage''), (''caches'', ''api.cache-storage''),
      (''service worker'', ''api.service-worker''),
      (''service worker'', ''api.service-worker''), (''sw'', ''api.service-worker''),
      (''web app manifest'', ''api.web-app-manifest''),
      (''manifestjson'', ''api.web-app-manifest''),
      (''pwa manifest'', ''api.web-app-manifest''), (''web share api'', ''api.web-share''),
      (''navigatorshare'', ''api.web-share''), (''web share'', ''api.web-share''),
      (''file system access api'', ''api.file-system-access''),
      (''file system access'', ''api.file-system-access''),
      (''showopenfilepicker'', ''api.file-system-access''),
      (''content security policy csp'', ''http.csp''), (''csp'', ''http.csp''),
      (''content security policy'', ''http.csp''),
      (''referrer policy'', ''http.referrer-policy''),
      (''referrer policy'', ''http.referrer-policy''),
      (''webauthn passkeys'', ''api.webauthn''), (''webauthn'', ''api.webauthn''),
      (''passkeys'', ''api.webauthn''), (''geolocation api'', ''api.geolocation''),
      (''geolocation'', ''api.geolocation''),
      (''screen wake lock api'', ''api.screen-wake-lock''),
      (''wake lock'', ''api.screen-wake-lock''),
      (''screen wakelock'', ''api.screen-wake-lock''),
      (''mediarecorder'', ''api.mediarecorder''),
      (''media recorder'', ''api.mediarecorder''),
      (''record media'', ''api.mediarecorder''), (''webrtc'', ''api.webrtc''),
      (''webrtc'', ''api.webrtc''), (''rtc'', ''api.webrtc''),
      (''media session api'', ''api.media-session''),
      (''media session'', ''api.media-session''),
      (''view transitions api'', ''api.view-transitions''),
      (''view transitions'', ''api.view-transitions''),
      (''documentstartviewtransition'', ''api.view-transitions''),
      (''navigation api'', ''api.navigation''), (''navigation api'', ''api.navigation''),
      (''app history'', ''api.navigation''),
      (''sharedarraybuffer atomics'', ''js.sharedarraybuffer''),
      (''sharedarraybuffer'', ''js.sharedarraybuffer''),
      (''atomics'', ''js.sharedarraybuffer''),
      (''cross-origin-opener-policy coop'', ''http.headers.coop''),
      (''coop'', ''http.headers.coop''),
      (''cross-origin-opener-policy'', ''http.headers.coop''),
      (''cross-origin-embedder-policy coep'', ''http.headers.coep''),
      (''coep'', ''http.headers.coep''),
      (''cross-origin-embedder-policy'', ''http.headers.coep''),
      (''cross-origin-resource-policy corp'', ''http.headers.corp''),
      (''corp'', ''http.headers.corp''),
      (''cross-origin-resource-policy'', ''http.headers.corp''),
      (''async clipboard api'', ''api.clipboard''), (''clipboard api'', ''api.clipboard''),
      (''navigatorclipboard'', ''api.clipboard''), (''clipboard-read'', ''api.clipboard''),
      (''clipboard-write'', ''api.clipboard''),
      (''elementinternals custom elements'', ''api.elementinternals''),
      (''element internals'', ''api.elementinternals''),
      (''form-associated custom elements'', ''api.elementinternals''),
      (''resizeobserver'', ''api.resize-observer''),
      (''resizeobserver'', ''api.resize-observer''), (''webcodecs'', ''api.webcodecs''),
      (''web codecs'', ''api.webcodecs''), (''webgpu'', ''api.webgpu''),
      (''wgpu'', ''api.webgpu''), (''gpu'', ''api.webgpu''),
      (''offscreencanvas'', ''api.offscreen-canvas''),
      (''offscreen canvas'', ''api.offscreen-canvas''),
      (''transfercontroltooffscreen'', ''api.offscreen-canvas'')]"
  have raw: "datasetDeclarations = ?DA @ (''responsive images'', ''html.elements.img.srcset'') # ?DB"
    by (simp add: datasetDeclarations_def declarationsOf_def WEB_FEATURES_DATA_def
        recordDeclarations_def)
  have na: "map normalizeKey ?DA = ?NA"
    by (simp add: normalizeKey_def string_eval)
  have nb: "map normalizeKey ?DB = ?NB"
    by (simp add: normalizeKey_def string_eval)
  have sv: "singleValued (manualAlias @ ?NA @ ?NB)"
    unfolding manualAlias_def
    by (simp only: append.simps singleValued.simps agreesWith.simps fst_conv snd_conv
        if_True if_False literal_eq cong: if_weak_cong)
  have m1: "(''responsive images'', ''html.elements.img.sizes'') \<in> set ?NB"
    by (simp only: list.set insert_iff empty_iff prod.inject literal_eq)
  have m2: "(''navigatorclipboard'', ''api.clipboard'') \<in> set ?NB"
    by (simp only: list.set insert_iff empty_iff prod.inject literal_eq)
  have m3: "([], ''js.syntax.optional-chaining'') \<in> set ?NB"
    by (simp only: list.set insert_iff empty_iff prod.inject literal_eq)
  have ne: "\<forall>d \<in> set (manualAlias @ ?NA @ ?NB).
      snd d \<noteq> [] \<and> fst d \<noteq> ''dark modetheming''"
    unfolding manualAlias_def
    by (simp only: append.simps list.set ball_simps fst_conv snd_conv literal_eq)
  have m4: "(''CSS Grid Layout'', ''css.properties.grid'') \<in> set ?DA"
    by (simp only: list.set insert_iff empty_iff prod.inject literal_eq)
  have m5: "(''grid'', ''css.properties.grid'') \<in> set ?DA"
    by (simp only: list.set insert_iff empty_iff prod.inject literal_eq)
  show ?thesis
    apply (rule exI [of _ ?DA])
    apply (rule exI [of _ ?DB])
    unfolding na nb
    using raw sv m1 m2 m3 ne m4 m5
    apply (intro conjI)
    apply assumption+
    done
qed

lemma manualAlias_keys:
  "\<forall>d \<in> set manualAlias.
     normalize (fst d) = fst d \<or>
     d = (''dark mode/theming'', ''css.media.prefers-color-scheme'') \<or>
     d = (''navigator.clipboard'', ''api.clipboard'')"
  unfolding manualAlias_def
  by (simp add: string_eval)

lemma manualAlias_head:
  "\<exists>rest. manualAlias = (''dark mode'', ''css.media.prefers-color-scheme'') # rest"
  by (simp add: manualAlias_def)

lemma normalize_examples:
  "normalize ''dark mode/theming'' = ''dark modetheming''"
  "normalize ''navigator.clipboard'' = ''navigatorclipboard''"
  "normalize ''responsive images'' = ''responsive images''"
  "normalize ''does-not-exist-xyz'' = ''does-not-exist-xyz''"
  "normalize ''???'' = []"
  "normalize ''CSS Grid'' = ''css grid''"
  "normalize ''CSS Grid Layout'' = ''css grid layout''"
  by (simp_all add: string_eval)

section \<open>The alias index\<close>

lemma buildAliasIndex_foldl:
  "buildAliasIndex manual dataset =
     foldl (\<lambda>acc d. AList.update (fst d) (snd d) acc) manual
       (map normalizeKey (declarationsOf dataset))"
proof (induction dataset arbitrary: manual)
  case Nil
  show ?case by (simp add: buildAliasIndex_def declarationsOf_def)
next
  case (Cons kr dataset)
  have step: "addRecord manual (snd kr) =
      foldl (\<lambda>acc d. AList.update (fst d) (snd d) acc) manual
        (map normalizeKey (recordDeclarations (snd kr)))"
    by (cases "rec_aliases (snd kr)")
       (simp_all add: addRecord_def recordDeclarations_def normalizeKey_def foldl_map)
  have "buildAliasIndex manual (kr # dataset) = buildAliasIndex (addRecord manual (snd kr)) dataset"
    by (simp add: buildAliasIndex_def)
  also have "\<dots> = foldl (\<lambda>acc d. AList.update (fst d) (snd d) acc) (addRecord manual (snd kr))
       (map normalizeKey (declarationsOf dataset))"
    by (rule Cons.IH)
  finally show ?case
    by (simp add: step declarationsOf_def)
qed

lemma map_of_foldl_update:
  "map_of (foldl (\<lambda>acc d. AList.update (fst d) (snd d) acc) m ds) =
     map_of m ++ map_of (rev ds)"
proof (induction ds arbitrary: m)
  case Nil
  show ?case by simp
next
  case (Cons d ds)
  have "map_of (AList.update (fst d) (snd d) m) ++ map_of (rev ds) =
        map_of m ++ map_of (rev (d # ds))"
    by (auto simp: update_conv' map_add_def fun_eq_iff split: option.splits)
  with Cons.IH [of "AList.update (fst d) (snd d) m"] show ?case by simp
qed

lemma keys_foldl_update:
  "\<exists>new. map fst (foldl (\<lambda>acc d. AList.update (fst d) (snd d) acc) m ds) = map fst m @ new"
proof (induction ds arbitrary: m)
  case Nil
  show ?case by simp
next
  case (Cons d ds)
  obtain new where new:
    "map fst (foldl (\<lambda>acc d. AList.update (fst d) (snd d) acc) (AList.update (fst d) (snd d) m) ds)
       = map fst (AList.update (fst d) (snd d) m) @ new"
    using Cons.IH by blast
  show ?case
    by (cases "fst d \<in> fst ` set m") (simp_all add: new update_keys)
qed

text \<open>
  The map of the built index: a key has the id of its last declaration in the dataset,
  and the id of the manual table when the dataset does not declare it.
\<close>

lemma map_of_buildAliasIndex:
  "map_of (buildAliasIndex manual dataset) =
     map_of manual ++ map_of (rev (map normalizeKey (declarationsOf dataset)))"
  by (simp add: buildAliasIndex_foldl map_of_foldl_update)

lemma buildAliasIndex_dataset_wins:
  assumes "map_of (rev (map normalizeKey (declarationsOf dataset))) k = Some i"
  shows "map_of (buildAliasIndex manual dataset) k = Some i"
  using assms by (simp add: map_of_buildAliasIndex map_add_def)

lemma agreesWith_iff:
  "agreesWith d es = (\<forall>e \<in> set es. fst e = fst d \<longrightarrow> snd e = snd d)"
  by (induction es) auto

lemma singleValuedD:
  "singleValued ds \<Longrightarrow> (k, i) \<in> set ds \<Longrightarrow> (k, j) \<in> set ds \<Longrightarrow> i = j"
proof (induction ds)
  case Nil
  then show ?case by simp
next
  case (Cons d ds)
  then show ?case
    by (auto simp: agreesWith_iff)
qed

lemma map_of_rev_mem: "map_of (rev ds) k = Some v \<Longrightarrow> (k, v) \<in> set ds"
  using map_of_SomeD [of "rev ds" k v] by simp

lemma map_of_rev_dom: "(k, i) \<in> set ds \<Longrightarrow> \<exists>v. map_of (rev ds) k = Some v"
proof -
  assume "(k, i) \<in> set ds"
  then have "k \<in> fst ` set (rev ds)" by force
  then show ?thesis
    by (metis domD dom_map_of_conv_image_fst)
qed

lemma lookup_last_wins:
  assumes idx: "map_of idx = map_of M ++ map_of (rev (A @ e # B))"
      and sv: "singleValued (M @ A @ B)"
      and later: "(fst e, v) \<in> set B"
      and mem: "(k, i) \<in> set M \<union> set A \<union> set B"
  shows "map_of idx k = Some i"
proof -
  have rev_split: "map_of (rev (A @ e # B)) = map_of (rev A) ++ [fst e \<mapsto> snd e] ++ map_of (rev B)"
    by (auto simp: map_add_def fun_eq_iff split: option.splits)
  have agree: "j = i" if "(k, j) \<in> set M \<union> set A \<union> set B" for j
    using singleValuedD [OF sv, of k i j] mem that by auto
  show ?thesis
  proof (cases "map_of (rev B) k")
    case (Some j)
    then have "(k, j) \<in> set B" by (rule map_of_rev_mem)
    then have "j = i" using agree by blast
    with Some show ?thesis by (simp add: idx rev_split map_add_def)
  next
    case noB: None
    have ke: "k \<noteq> fst e"
      using map_of_rev_dom [OF later] noB by auto
    show ?thesis
    proof (cases "map_of (rev A) k")
      case (Some j)
      then have "(k, j) \<in> set A" by (rule map_of_rev_mem)
      then have "j = i" using agree by blast
      with Some noB ke show ?thesis by (simp add: idx rev_split map_add_def)
    next
      case noA: None
      have "(k, i) \<notin> set A" using map_of_rev_dom [of k i A] noA by auto
      moreover have "(k, i) \<notin> set B" using map_of_rev_dom [of k i B] noB by auto
      ultimately have "(k, i) \<in> set M" using mem by blast
      then obtain j where j: "map_of M k = Some j"
        by (metis domD dom_map_of_conv_image_fst fst_conv image_eqI)
      then have "(k, j) \<in> set M" by (rule map_of_SomeD)
      then have "j = i" using agree by blast
      with j noA noB ke show ?thesis by (simp add: idx rev_split map_add_def)
    qed
  qed
qed

text \<open>
  The shipped index: every declared key, the first declaration of
  \<open>responsive images\<close> apart, is mapped to the id that declares it.
\<close>

lemma map_of_aliasIndex:
  "map_of aliasIndex = map_of manualAlias ++ map_of (rev (map normalizeKey datasetDeclarations))"
  by (simp add: aliasIndex_def datasetDeclarations_def map_of_buildAliasIndex)

lemma alias_tables_lookup:
  "\<exists>DA DB.
     datasetDeclarations = DA @ (''responsive images'', ''html.elements.img.srcset'') # DB \<and>
     (\<forall>k i. (k, i) \<in> set manualAlias \<union> set (map normalizeKey DA) \<union> set (map normalizeKey DB)
        \<longrightarrow> map_of aliasIndex k = Some i \<and> i \<noteq> [] \<and> k \<noteq> ''dark modetheming'') \<and>
     (''responsive images'', ''html.elements.img.sizes'') \<in> set (map normalizeKey DB) \<and>
     (''navigatorclipboard'', ''api.clipboard'') \<in> set (map normalizeKey DB) \<and>
     ([], ''js.syntax.optional-chaining'') \<in> set (map normalizeKey DB) \<and>
     (''CSS Grid Layout'', ''css.properties.grid'') \<in> set DA \<and>
     (''grid'', ''css.properties.grid'') \<in> set DA"
proof -
  let ?e = "(''responsive images'', ''html.elements.img.srcset'')"
  obtain DA DB where
    raw: "datasetDeclarations = DA @ ?e # DB" and
    sv: "singleValued (manualAlias @ map normalizeKey DA @ map normalizeKey DB)" and
    later: "(''responsive images'', ''html.elements.img.sizes'') \<in> set (map normalizeKey DB)" and
    m2: "(''navigatorclipboard'', ''api.clipboard'') \<in> set (map normalizeKey DB)" and
    m3: "([], ''js.syntax.optional-chaining'') \<in> set (map normalizeKey DB)" and
    ne: "\<forall>d \<in> set (manualAlias @ map normalizeKey DA @ map normalizeKey DB).
           snd d \<noteq> [] \<and> fst d \<noteq> ''dark modetheming''" and
    m4: "(''CSS Grid Layout'', ''css.properties.grid'') \<in> set DA" and
    m5: "(''grid'', ''css.properties.grid'') \<in> set DA"
    using alias_tables by blast
  have nexc: "normalizeKey ?e = ?e"
    by (simp add: normalizeKey_def normalize_examples)
  have idx: "map_of aliasIndex =
      map_of manualAlias ++ map_of (rev (map normalizeKey DA @ ?e # map normalizeKey DB))"
    using nexc by (simp add: map_of_aliasIndex raw)
  have look: "map_of aliasIndex k = Some i \<and> i \<noteq> [] \<and> k \<noteq> ''dark modetheming''"
    if mem: "(k, i) \<in> set manualAlias \<union> set (map normalizeKey DA) \<union> set (map normalizeKey DB)"
    for k i
  proof -
    have "map_of aliasIndex k = Some i"
      by (rule lookup_last_wins [OF idx sv _ mem]) (use later in simp)
    moreover have "(k, i) \<in> set (manualAlias @ map normalizeKey DA @ map normalizeKey DB)"
      using mem by simp
    with ne have "snd (k, i) \<noteq> [] \<and> fst (k, i) \<noteq> ''dark modetheming''" by (rule bspec)
    ultimately show ?thesis by simp
  qed
  show ?thesis
    using raw look later m2 m3 m4 m5 by blast
qed

lemma aliasIndex_manual:
  assumes "(k, i) \<in> set manualAlias"
  shows "map_of aliasIndex k = Some i" and "i \<noteq> []"
proof -
  obtain DA DB where
    look: "\<forall>k i. (k, i) \<in> set manualAlias \<union> set (map normalizeKey DA) \<union> set (map normalizeKey DB)
       \<longrightarrow> map_of aliasIndex k = Some i \<and> i \<noteq> [] \<and> k \<noteq> ''dark modetheming''"
    using alias_tables_lookup by blast
  from look assms show "map_of aliasIndex k = Some i" and "i \<noteq> []" by blast+
qed

lemma aliasIndex_declared:
  assumes "(a, i) \<in> set datasetDeclarations"
      and "(a, i) \<noteq> (''responsive images'', ''html.elements.img.srcset'')"
  shows "map_of aliasIndex (normalize a) = Some i" and "i \<noteq> []"
proof -
  obtain DA DB where
    raw: "datasetDeclarations = DA @ (''responsive images'', ''html.elements.img.srcset'') # DB" and
    look: "\<forall>k i. (k, i) \<in> set manualAlias \<union> set (map normalizeKey DA) \<union> set (map normalizeKey DB)
       \<longrightarrow> map_of aliasIndex k = Some i \<and> i \<noteq> [] \<and> k \<noteq> ''dark modetheming''"
    using alias_tables_lookup by blast
  have "(a, i) \<in> set DA \<union> set DB" using assms by (auto simp: raw)
  then have "normalizeKey (a, i) \<in> set (map normalizeKey DA) \<union> set (map normalizeKey DB)"
    by auto
  then have "(normalize a, i) \<in>
      set manualAlias \<union> set (map normalizeKey DA) \<union> set (map normalizeKey DB)"
    by (simp add: normalizeKey_def)
  with look show "map_of aliasIndex (normalize a) = Some i" and "i \<noteq> []" by blast+
qed

lemma aliasIndex_examples:
  "map_of aliasIndex [] = Some ''js.syntax.optional-chaining''"
  "map_of aliasIndex ''responsive images'' = Some ''html.elements.img.sizes''"
  "map_of aliasIndex ''navigatorclipboard'' = Some ''api.clipboard''"
  "(''responsive images'', ''html.elements.img.srcset'') \<in> set datasetDeclarations"
  "(''CSS Grid Layout'', ''css.properties.grid'') \<in> set datasetDeclarations"
  "(''grid'', ''css.properties.grid'') \<in> set datasetDeclarations"
proof -
  obtain DA DB where
    raw: "datasetDeclarations = DA @ (''responsive images'', ''html.elements.img.srcset'') # DB" and
    look: "\<forall>k i. (k, i) \<in> set manualAlias \<union> set (map normalizeKey DA) \<union> set (map normalizeKey DB)
       \<longrightarrow> map_of aliasIndex k = Some i \<and> i \<noteq> [] \<and> k \<noteq> ''dark modetheming''" and
    m: "(''responsive images'', ''html.elements.img.sizes'') \<in> set (map normalizeKey DB)"
       "(''navigatorclipboard'', ''api.clipboard'') \<in> set (map normalizeKey DB)"
       "([], ''js.syntax.optional-chaining'') \<in> set (map normalizeKey DB)"
       "(''CSS Grid Layout'', ''css.properties.grid'') \<in> set DA"
       "(''grid'', ''css.properties.grid'') \<in> set DA"
    using alias_tables_lookup by blast
  show "map_of aliasIndex [] = Some ''js.syntax.optional-chaining''"
    using look m by blast
  show "map_of aliasIndex ''responsive images'' = Some ''html.elements.img.sizes''"
    using look m by blast
  show "map_of aliasIndex ''navigatorclipboard'' = Some ''api.clipboard''"
    using look m by blast
  show "(''responsive images'', ''html.elements.img.srcset'') \<in> set datasetDeclarations"
    by (simp add: raw)
  show "(''CSS Grid Layout'', ''css.properties.grid'') \<in> set datasetDeclarations"
    using m by (simp add: raw)
  show "(''grid'', ''css.properties.grid'') \<in> set datasetDeclarations"
    using m by (simp add: raw)
qed

lemma aliasIndex_no_dark_modetheming: "map_of aliasIndex ''dark modetheming'' = None"
proof (rule ccontr)
  assume "map_of aliasIndex ''dark modetheming'' \<noteq> None"
  then obtain v where v: "map_of aliasIndex ''dark modetheming'' = Some v" by blast
  obtain DA DB where
    raw: "datasetDeclarations = DA @ (''responsive images'', ''html.elements.img.srcset'') # DB" and
    look: "\<forall>k i. (k, i) \<in> set manualAlias \<union> set (map normalizeKey DA) \<union> set (map normalizeKey DB)
       \<longrightarrow> map_of aliasIndex k = Some i \<and> i \<noteq> [] \<and> k \<noteq> ''dark modetheming''"
    using alias_tables_lookup by blast
  have nexc: "normalizeKey (''responsive images'', ''html.elements.img.srcset'')
      = (''responsive images'', ''html.elements.img.srcset'')"
    by (simp add: normalizeKey_def normalize_examples)
  from v have "(''dark modetheming'', v) \<in>
      set manualAlias \<union> set (map normalizeKey datasetDeclarations)"
    by (auto simp: map_of_aliasIndex map_add_Some_iff dest: map_of_SomeD map_of_rev_mem)
  then have "(''dark modetheming'', v) \<in>
      set manualAlias \<union> set (map normalizeKey DA) \<union> set (map normalizeKey DB)"
    using nexc by (auto simp: raw)
  with look show False by blast
qed

lemma aliasIndex_head:
  "\<exists>rest. aliasIndex = (''dark mode'', ''css.media.prefers-color-scheme'') # rest"
proof -
  obtain mrest where m: "manualAlias = (''dark mode'', ''css.media.prefers-color-scheme'') # mrest"
    using manualAlias_head by blast
  obtain new where "map fst aliasIndex = map fst manualAlias @ new"
    unfolding aliasIndex_def buildAliasIndex_foldl using keys_foldl_update by blast
  then have "map fst aliasIndex = ''dark mode'' # map fst mrest @ new"
    by (simp add: m)
  then obtain v rest where idx: "aliasIndex = (''dark mode'', v) # rest"
    by (cases aliasIndex) auto
  have "map_of aliasIndex ''dark mode'' = Some ''css.media.prefers-color-scheme''"
    by (rule aliasIndex_manual) (simp add: m)
  then have "v = ''css.media.prefers-color-scheme''"
    by (simp add: idx)
  with idx show ?thesis by blast
qed

section \<open>The resolver\<close>

lemma js_includes_Nil [simp]: "js_includes s []"
  by (simp add: js_includes_def)


lemma resolveIn_exact:
  assumes "map_of idx (normalize nm) = Some i" and "i \<noteq> []"
  shows "resolveIn idx nm = Some (IdString i)"
  using assms by (simp add: resolveIn_def getProperty_def)


section \<open>Claims about the alias resolver\<close>


lemma resolve_dark_mode_theming:
  "resolveFeatureIdByName ''dark mode/theming'' = Some (IdString ''css.media.prefers-color-scheme'')"
proof -
  obtain rest where idx: "aliasIndex = (''dark mode'', ''css.media.prefers-color-scheme'') # rest"
    using aliasIndex_head by blast
  have none: "getProperty aliasIndex ''dark modetheming'' = None"
    by (simp add: getProperty_def aliasIndex_no_dark_modetheming objectPrototypeKeys_def)
  have inc: "js_includes ''dark modetheming'' ''dark mode''"
    by (simp add: js_includes_def sublist_Cons_right)
  have "fuzzyScan ''dark modetheming'' aliasIndex = Some ''css.media.prefers-color-scheme''"
    unfolding idx using inc by simp
  then show ?thesis
    by (simp add: resolveFeatureIdByName_def resolveIn_def normalize_examples none)
qed

text \<open>
  C3, as amended. The manual table and the dataset declare alias strings (a record declares
  its title and its aliases). For every declared string but one,
  \<^const>\<open>resolveFeatureIdByName\<close> returns the id of the entry that declares it. The
  exception is the alias \<open>responsive images\<close> of \<open>html.elements.img.srcset\<close>: the
  record \<open>html.elements.img.sizes\<close> declares the same string later and its id is returned.
\<close>

theorem alias_round_trip:
  "\<forall>(a, i) \<in> set (manualAlias @ datasetDeclarations).
     (a, i) \<noteq> (''responsive images'', ''html.elements.img.srcset'') \<longrightarrow>
     resolveFeatureIdByName a = Some (IdString i)"
proof -
  have main: "resolveFeatureIdByName a = Some (IdString i)"
    if mem: "(a, i) \<in> set (manualAlias @ datasetDeclarations)"
    and ne: "(a, i) \<noteq> (''responsive images'', ''html.elements.img.srcset'')" for a i
  proof (cases "(a, i) \<in> set manualAlias")
    case True
    from manualAlias_keys True
    have "normalize (fst (a, i)) = fst (a, i) \<or>
          (a, i) = (''dark mode/theming'', ''css.media.prefers-color-scheme'') \<or>
          (a, i) = (''navigator.clipboard'', ''api.clipboard'')"
      by (rule bspec)
    then consider
        (normal) "normalize a = a"
      | (dark) "a = ''dark mode/theming''" "i = ''css.media.prefers-color-scheme''"
      | (clip) "a = ''navigator.clipboard''" "i = ''api.clipboard''"
      by auto
    then show ?thesis
    proof cases
      case normal
      have "map_of aliasIndex (normalize a) = Some i"
        using aliasIndex_manual(1) [OF True] normal by simp
      then show ?thesis
        unfolding resolveFeatureIdByName_def
        by (rule resolveIn_exact) (rule aliasIndex_manual(2) [OF True])
    next
      case dark
      then show ?thesis by (simp add: resolve_dark_mode_theming)
    next
      case clip
      have "map_of aliasIndex (normalize a) = Some i"
        by (simp add: clip normalize_examples aliasIndex_examples)
      then show ?thesis
        unfolding resolveFeatureIdByName_def
        by (rule resolveIn_exact) (simp add: clip)
    qed
  next
    case False
    with mem have decl: "(a, i) \<in> set datasetDeclarations" by simp
    show ?thesis
      unfolding resolveFeatureIdByName_def
      by (rule resolveIn_exact [OF aliasIndex_declared(1) [OF decl ne] aliasIndex_declared(2) [OF decl ne]])
  qed
  show ?thesis using main by blast
qed

theorem alias_round_trip_witness:
  "(''CSS Grid Layout'', ''css.properties.grid'') \<in> set (manualAlias @ datasetDeclarations) \<and>
   (''CSS Grid Layout'', ''css.properties.grid'') \<noteq> (''responsive images'', ''html.elements.img.srcset'') \<and>
   resolveFeatureIdByName ''CSS Grid Layout'' = Some (IdString ''css.properties.grid'')"
proof -
  have mem: "(''CSS Grid Layout'', ''css.properties.grid'') \<in> set (manualAlias @ datasetDeclarations)"
    by (simp add: aliasIndex_examples)
  from alias_round_trip mem
  have "case (''CSS Grid Layout'', ''css.properties.grid'') of (a, i) \<Rightarrow>
      (a, i) \<noteq> (''responsive images'', ''html.elements.img.srcset'') \<longrightarrow>
      resolveFeatureIdByName a = Some (IdString i)"
    by (rule bspec)
  with mem show ?thesis by simp
qed

text \<open>
  The claim as stated fails at the alias \<open>responsive images\<close> that the record
  \<open>html.elements.img.srcset\<close> declares: the resolver returns
  \<open>html.elements.img.sizes\<close>.
\<close>

theorem alias_round_trip_counterexample:
  "(''responsive images'', ''html.elements.img.srcset'') \<in> set (manualAlias @ datasetDeclarations) \<and>
   resolveFeatureIdByName ''responsive images'' = Some (IdString ''html.elements.img.sizes'') \<and>
   resolveFeatureIdByName ''responsive images'' \<noteq> Some (IdString ''html.elements.img.srcset'')"
proof -
  have "map_of aliasIndex (normalize ''responsive images'') = Some ''html.elements.img.sizes''"
    by (simp add: normalize_examples aliasIndex_examples)
  then have "resolveFeatureIdByName ''responsive images'' = Some (IdString ''html.elements.img.sizes'')"
    unfolding resolveFeatureIdByName_def by (rule resolveIn_exact) simp
  then show ?thesis
    by (simp add: aliasIndex_examples)
qed






text \<open>
  C9, as amended. An input whose normalization is the empty string does not resolve to
  \<^verbatim>\<open>undefined\<close>: it resolves to \<open>js.syntax.optional-chaining\<close>, by the exact lookup,
  because the dataset alias \<open>?.\<close> of that record normalizes to the empty string and is a
  key of the index.
\<close>

theorem empty_normalization:
  "normalize nm = [] \<Longrightarrow>
   resolveFeatureIdByName nm = Some (IdString ''js.syntax.optional-chaining'')"
proof -
  assume "normalize nm = []"
  then have "map_of aliasIndex (normalize nm) = Some ''js.syntax.optional-chaining''"
    by (simp add: aliasIndex_examples)
  then show ?thesis
    unfolding resolveFeatureIdByName_def by (rule resolveIn_exact) simp
qed

theorem empty_normalization_witness:
  "normalize ''???'' = [] \<and>
   resolveFeatureIdByName ''???'' = Some (IdString ''js.syntax.optional-chaining'')"
  using empty_normalization [of "''???''"] by (simp add: normalize_examples)

text \<open>
  The claim as stated fails at the empty input: the id returned is not that of the first
  entry of the index.
\<close>

theorem empty_normalization_counterexample:
  "normalize [] = [] \<and>
   resolveFeatureIdByName [] = Some (IdString ''js.syntax.optional-chaining'') \<and>
   resolveFeatureIdByName [] \<noteq> Some (IdString ''css.media.prefers-color-scheme'')"
proof -
  have n: "normalize [] = []"
    by (simp add: string_eval)
  then have "map_of aliasIndex (normalize []) = Some ''js.syntax.optional-chaining''"
    by (simp add: aliasIndex_examples)
  then have "resolveFeatureIdByName [] = Some (IdString ''js.syntax.optional-chaining'')"
    unfolding resolveFeatureIdByName_def by (rule resolveIn_exact) simp
  with n show ?thesis by simp
qed

section \<open>Claims about the baseline enricher\<close>






section \<open>The used-sets\<close>

lemma markUsed_sets [simp]:
  "allUsedFeatureNames (markUsed i n st) = insert n (allUsedFeatureNames st)"
  "allUsedFeatureIds (markUsed i n st) = allUsedFeatureIds st \<union> {v. i = Some v \<and> truthy v}"
  by (auto simp: markUsed_def split: option.splits)

lemma markPick_sets [simp]:
  "allUsedFeatureNames (markPick p st) =
     insert (normalizedNameOf (snd p)) (allUsedFeatureNames st)"
  "allUsedFeatureIds (markPick p st) = insert (IdString (fst p)) (allUsedFeatureIds st)"
  by (simp_all add: markPick_def)

lemma state_eqI:
  fixes a b :: DedupState
  assumes "allUsedFeatureIds a = allUsedFeatureIds b"
      and "allUsedFeatureNames a = allUsedFeatureNames b"
  shows "a = b"
  using assms by (cases a, cases b) simp

lemma markPick_commute: "markPick p (markPick q st) = markPick q (markPick p st)"
  by (rule state_eqI) auto

lemma idUsed_mono:
  "idUsed st i \<Longrightarrow> allUsedFeatureIds st \<subseteq> allUsedFeatureIds st' \<Longrightarrow> idUsed st' i"
  by (auto simp: idUsed_def split: option.splits)

lemma isVariationOfExisting_mono:
  "isVariationOfExisting st n \<Longrightarrow> allUsedFeatureNames st \<subseteq> allUsedFeatureNames st'
     \<Longrightarrow> isVariationOfExisting st' n"
  by (auto simp: isVariationOfExisting_def)

lemma pickUsed_mono:
  "pickUsed st p \<Longrightarrow> stateLe st st' \<Longrightarrow> pickUsed st' p"
  by (auto simp: pickUsed_def)

lemma pickUsed_markPick:
  "pickUsed (markPick p st) q \<longleftrightarrow>
     pickUsed st q \<or> fst q = fst p \<or> normalizedNameOf (snd q) = normalizedNameOf (snd p)"
  by (auto simp: pickUsed_def)

section \<open>The filter over the mentions of a section\<close>

lemma keepFeature_verdict:
  "(keepFeature st f = (True, markUsed (featureId f) (nameKey f) st) \<and>
      fresh st f \<and> \<not> isVariationOfExisting st (nameKey f)) \<or>
   keepFeature st f = (False, st)"
  by (simp add: keepFeature_def Let_def)

lemma keepFeature_cases:
  obtains
    (kept) "keepFeature st f = (True, markUsed (featureId f) (nameKey f) st)"
      "fresh st f" "\<not> isVariationOfExisting st (nameKey f)"
  | (dropped) "keepFeature st f = (False, st)"
  using keepFeature_verdict [of st f] by blast

lemma filterFeatures_inv:
  assumes "filterFeatures st fs = (kept, st')"
  shows "stateLe st st' \<and>
         set kept \<subseteq> set fs \<and>
         (\<forall>f \<in> set kept. fresh st f \<and> recorded st' f \<and>
                          \<not> isVariationOfExisting st (nameKey f)) \<and>
         distinct (map nameKey kept) \<and>
         allUsedFeatureNames st' = allUsedFeatureNames st \<union> nameKey ` set kept \<and>
         allUsedFeatureIds st' =
           allUsedFeatureIds st \<union> {v. \<exists>f \<in> set kept. featureId f = Some v \<and> truthy v}"
  using assms
proof (induction fs arbitrary: st kept st')
  case Nil
  then show ?case by auto
next
  case (Cons f fs)
  obtain kept1 st1 st2 keep where
    k: "keepFeature st f = (keep, st1)" and r: "filterFeatures st1 fs = (kept1, st2)"
    by (metis surj_pair)
  from Cons.prems k r have res: "kept = (if keep then f # kept1 else kept1)" "st' = st2"
    by auto
  note IH = Cons.IH [OF r]
  show ?case
  proof (cases rule: keepFeature_cases [of st f])
    case kept
    with k have keep: "keep" and st1: "st1 = markUsed (featureId f) (nameKey f) st"
      by auto
    have le: "stateLe st st1" by (auto simp: st1)
    have le2: "stateLe st1 st2" using IH by blast
    have fresh1: "\<forall>g \<in> set kept1. fresh st1 g \<and> recorded st2 g \<and>
        \<not> isVariationOfExisting st1 (nameKey g)"
      using IH by blast
    have rec_f: "recorded st2 f"
    proof -
      have "nameKey f \<in> allUsedFeatureNames st1" by (simp add: st1)
      moreover have "truthyId (featureId f) \<longrightarrow> featureId f \<in> Some ` allUsedFeatureIds st1"
        by (cases "featureId f") (auto simp: st1)
      ultimately show ?thesis using le2 by blast
    qed
    have fresh_all: "fresh st g \<and> \<not> isVariationOfExisting st (nameKey g)"
      if "g \<in> set kept1" for g
      using fresh1 that le idUsed_mono [of st "featureId g" st1]
        isVariationOfExisting_mono [of st "nameKey g" st1]
      by blast
    have notin: "nameKey f \<notin> nameKey ` set kept1"
    proof
      assume "nameKey f \<in> nameKey ` set kept1"
      then obtain g where g: "g \<in> set kept1" "nameKey g = nameKey f" by auto
      with fresh1 have "nameKey g \<notin> allUsedFeatureNames st1" by blast
      with g show False by (simp add: st1)
    qed
    have names: "allUsedFeatureNames st2 =
        allUsedFeatureNames st \<union> nameKey ` set (f # kept1)"
      using IH by (auto simp: st1)
    have ids: "allUsedFeatureIds st2 =
        allUsedFeatureIds st \<union> {v. \<exists>g \<in> set (f # kept1). featureId g = Some v \<and> truthy v}"
      using IH by (auto simp: st1)
    have "stateLe st st2" using le le2 by blast
    moreover have "set (f # kept1) \<subseteq> set (f # fs)" using IH by auto
    moreover have "\<forall>g \<in> set (f # kept1). fresh st g \<and> recorded st2 g \<and>
        \<not> isVariationOfExisting st (nameKey g)"
      using kept(2,3) rec_f fresh_all fresh1 by auto
    moreover have "distinct (map nameKey (f # kept1))"
      using IH notin by simp
    ultimately show ?thesis
      using names ids keep by (simp add: res)
  next
    case dropped
    with k have keep: "\<not> keep" and st1: "st1 = st" by auto
    show ?thesis
      using IH keep by (auto simp: res st1)
  qed
qed

lemma filterFeatures_fixpoint:
  "filterFeatures st fs = (kept, st') \<Longrightarrow> filterFeatures st kept = (kept, st')"
proof (induction fs arbitrary: st kept st')
  case Nil
  then show ?case by auto
next
  case (Cons f fs)
  obtain kept1 st1 st2 keep where
    k: "keepFeature st f = (keep, st1)" and r: "filterFeatures st1 fs = (kept1, st2)"
    by (metis surj_pair)
  from Cons.prems k r have res: "kept = (if keep then f # kept1 else kept1)" "st' = st2"
    by auto
  note IH = Cons.IH [OF r]
  show ?case
  proof (cases keep)
    case True
    then show ?thesis using k IH res by simp
  next
    case False
    with k have "st1 = st"
      by (cases rule: keepFeature_cases [of st f]) auto
    with False show ?thesis using IH res by simp
  qed
qed

lemma filterFeatures_append:
  "filterFeatures st (xs @ ys) =
     (case filterFeatures st xs of
        (a, s1) \<Rightarrow> (case filterFeatures s1 ys of (b, s2) \<Rightarrow> (a @ b, s2)))"
  by (induction xs arbitrary: st) (auto split: prod.splits)

lemma filterFeatures_first:
  "\<exists>kept st'. filterFeatures initialState (f # fs) = (f # kept, st') \<and>
     filterFeatures (markUsed (featureId f) (nameKey f) initialState) fs = (kept, st')"
proof -
  have "keepFeature initialState f = (True, markUsed (featureId f) (nameKey f) initialState)"
    by (auto simp: keepFeature_def Let_def initialState_def idUsed_def
        isVariationOfExisting_def split: option.splits)
  then show ?thesis
    by (cases "filterFeatures (markUsed (featureId f) (nameKey f) initialState) fs") simp
qed

section \<open>The fallback pool\<close>

lemma demoPool_length: "length demoPool = 16"
  by (simp add: demoPool_def)

lemma demoPool_names:
  "map (\<lambda>p. normalizedNameOf (snd p)) demoPool =
     [''dark mode (prefers-color-scheme)'', ''css color-scheme'',
      ''css variables (custom properties)'', ''css grid layout'', ''css flexbox'',
      ''css container queries'', ''css aspect ratio'', ''css display property'',
      ''optional chaining (?.)'', ''top-level await'', ''fetch api'', ''service worker'',
      ''<dialog> element'', '':has() selector'', ''view transitions api'', ''css clamp()'']"
  by (simp add: demoPool_def string_eval)

lemma demoPool_distinct:
  "distinct (map fst demoPool)"
  "distinct (map (\<lambda>p. normalizedNameOf (snd p)) demoPool)"
  unfolding demoPool_names
  by (simp_all add: demoPool_def)

lemma demoPool_ids_nonempty: "p \<in> set demoPool \<Longrightarrow> fst p \<noteq> []"
  by (auto simp: demoPool_def)

lemma demoPool_inj:
  assumes "p \<in> set demoPool" "q \<in> set demoPool"
  shows "fst q = fst p \<longleftrightarrow> q = p"
    and "normalizedNameOf (snd q) = normalizedNameOf (snd p) \<longleftrightarrow> q = p"
proof -
  have "inj_on fst (set demoPool)"
    using demoPool_distinct(1) by (simp add: distinct_map)
  with assms show "fst q = fst p \<longleftrightarrow> q = p" by (auto dest: inj_onD)
  have "inj_on (\<lambda>p. normalizedNameOf (snd p)) (set demoPool)"
    using demoPool_distinct(2) by (simp add: distinct_map)
  with assms show "normalizedNameOf (snd q) = normalizedNameOf (snd p) \<longleftrightarrow> q = p"
    by (auto dest: inj_onD)
qed

lemma pickUsed_markPick_pool:
  assumes "p \<in> set demoPool" "q \<in> set demoPool"
  shows "pickUsed (markPick p st) q \<longleftrightarrow> pickUsed st q \<or> q = p"
  using demoPool_inj [OF assms] by (auto simp: pickUsed_markPick)

lemma pool_nth_mem: "demoPool ! (k mod length demoPool) \<in> set demoPool"
  by (simp add: demoPool_length)

lemma pool_offsets:
  assumes "p \<in> set demoPool"
  shows "\<exists>k < length demoPool. p = demoPool ! ((s + k) mod length demoPool)"
proof -
  from assms obtain i where i: "i < length demoPool" "p = demoPool ! i"
    by (auto simp: in_set_conv_nth)
  have i16: "i < 16" using i(1) by (simp only: demoPool_length)
  define r where "r = s mod 16"
  have r: "r < 16" unfolding r_def by simp
  let ?k = "(i + 16 - r) mod 16"
  have "(s + ?k) mod 16 = (s + (i + 16 - r)) mod 16"
    by (rule mod_add_right_eq)
  also have "\<dots> = (s mod 16 + (i + 16 - r)) mod 16"
    by (rule mod_add_left_eq [symmetric])
  also have "\<dots> = (i + 16) mod 16" using r unfolding r_def [symmetric] by simp
  also have "\<dots> = i" using i16 by simp
  finally have "(s + ?k) mod length demoPool = i" by (simp only: demoPool_length)
  moreover have "?k < length demoPool" by (simp add: demoPool_length)
  ultimately have "?k < length demoPool \<and> p = demoPool ! ((s + ?k) mod length demoPool)"
    using i(2) by simp
  then show ?thesis by (rule exI)
qed

section \<open>The probing loop\<close>

lemma findPick_in_pool: "findPick st s a \<in> set demoPool"
proof (induction st s a rule: findPick.induct)
  case (1 st start attempts)
  show ?case
  proof (cases "pickUsed st (demoPool ! ((start + attempts) mod length demoPool)) \<and>
      attempts + 1 < length demoPool")
    case True
    with "1.IH" [OF refl refl True] show ?thesis
      by (subst findPick.simps) (simp add: Let_def)
  next
    case False
    then show ?thesis
      by (subst findPick.simps) (auto simp: Let_def pool_nth_mem)
  qed
qed

lemma findPick_first_unused:
  assumes "a \<le> k" "k < length demoPool"
      and "\<not> pickUsed st (demoPool ! ((s + k) mod length demoPool))"
      and "\<forall>j. a \<le> j \<and> j < k \<longrightarrow> pickUsed st (demoPool ! ((s + j) mod length demoPool))"
  shows "findPick st s a = demoPool ! ((s + k) mod length demoPool)"
  using assms
proof (induction "k - a" arbitrary: a)
  case 0
  then have "a = k" by simp
  with 0 show ?case
    by (subst findPick.simps) (simp add: Let_def)
next
  case (Suc d)
  then have lt: "a < k" by simp
  with Suc.prems have used: "pickUsed st (demoPool ! ((s + a) mod length demoPool))"
    by simp
  have "findPick st s a = findPick st s (a + 1)"
    using used lt Suc.prems(2) by (subst findPick.simps) (simp add: Let_def)
  also have "\<dots> = demoPool ! ((s + k) mod length demoPool)"
    using Suc.hyps(2) lt Suc.prems by (intro Suc.hyps(1)) auto
  finally show ?case .
qed

text \<open>
  The pick that the loop ends with is unused exactly when some entry of the pool is, and
  then it is the first unused entry from the start index on, in cyclic order.
\<close>

lemma findPick_unused_char:
  assumes "\<exists>p \<in> set demoPool. \<not> pickUsed st p"
  shows "\<exists>k < length demoPool.
           findPick st s 0 = demoPool ! ((s + k) mod length demoPool) \<and>
           \<not> pickUsed st (demoPool ! ((s + k) mod length demoPool)) \<and>
           (\<forall>j < k. pickUsed st (demoPool ! ((s + j) mod length demoPool)))"
proof -
  from assms obtain p where p: "p \<in> set demoPool" "\<not> pickUsed st p" by blast
  let ?free = "\<lambda>k. k < length demoPool \<and> \<not> pickUsed st (demoPool ! ((s + k) mod length demoPool))"
  from pool_offsets [OF p(1), of s] p(2) have ex: "\<exists>k. ?free k" by auto
  define k where "k = (LEAST k. ?free k)"
  have k: "?free k" unfolding k_def using ex by (rule LeastI_ex)
  have least: "\<not> ?free j" if "j < k" for j
    using that not_less_Least unfolding k_def by blast
  have used: "\<forall>j. 0 \<le> j \<and> j < k \<longrightarrow> pickUsed st (demoPool ! ((s + j) mod length demoPool))"
    using least k by auto
  have "findPick st s 0 = demoPool ! ((s + k) mod length demoPool)"
    using k used by (intro findPick_first_unused) auto
  with k used show ?thesis by auto
qed

lemma findPick_used_iff:
  "pickUsed st (findPick st s 0) \<longleftrightarrow> (\<forall>p \<in> set demoPool. pickUsed st p)"
proof
  assume used: "pickUsed st (findPick st s 0)"
  show "\<forall>p \<in> set demoPool. pickUsed st p"
  proof (rule ccontr)
    assume "\<not> (\<forall>p \<in> set demoPool. pickUsed st p)"
    then have "\<exists>p \<in> set demoPool. \<not> pickUsed st p" by blast
    from findPick_unused_char [OF this, of s] used show False by auto
  qed
next
  assume "\<forall>p \<in> set demoPool. pickUsed st p"
  then show "pickUsed st (findPick st s 0)"
    using findPick_in_pool by blast
qed

lemma findPick_shift:
  assumes "pickUsed st (demoPool ! (s mod length demoPool))"
      and "\<not> pickUsed st (findPick st (s + 1) 0)"
  shows "findPick st s 0 = findPick st (s + 1) 0"
proof -
  have "\<exists>p \<in> set demoPool. \<not> pickUsed st p"
    using assms(2) findPick_in_pool by blast
  from findPick_unused_char [OF this, of "s + 1"] obtain k where k:
    "k < length demoPool"
    "findPick st (s + 1) 0 = demoPool ! ((s + 1 + k) mod length demoPool)"
    "\<not> pickUsed st (demoPool ! ((s + 1 + k) mod length demoPool))"
    "\<forall>j < k. pickUsed st (demoPool ! ((s + 1 + j) mod length demoPool))"
    by blast
  have "k + 1 < length demoPool"
  proof (rule ccontr)
    assume "\<not> k + 1 < length demoPool"
    with k(1) have "s + 1 + k = s + length demoPool" by simp
    then have "(s + 1 + k) mod length demoPool = s mod length demoPool"
      by (simp only: mod_add_self2)
    with k(3) assms(1) show False by simp
  qed
  moreover have "\<not> pickUsed st (demoPool ! ((s + (k + 1)) mod length demoPool))"
    using k(3) by (simp add: add.assoc add.commute add.left_commute)
  moreover have "pickUsed st (demoPool ! ((s + j) mod length demoPool))"
    if "0 \<le> j \<and> j < k + 1" for j
  proof (cases j)
    case 0
    with assms(1) show ?thesis by simp
  next
    case (Suc j')
    with that have "j' < k" by simp
    with k(4) have "pickUsed st (demoPool ! ((s + 1 + j') mod length demoPool))" by blast
    with Suc show ?thesis by (simp add: add.assoc add.commute add.left_commute)
  qed
  ultimately have "findPick st s 0 = demoPool ! ((s + (k + 1)) mod length demoPool)"
    by (intro findPick_first_unused) auto
  with k(2) show ?thesis by (simp add: add.assoc add.commute add.left_commute)
qed

lemma findPick_mono:
  assumes "\<not> pickUsed st' (findPick st s 0)"
      and "\<forall>p \<in> set demoPool. pickUsed st p \<longrightarrow> pickUsed st' p"
  shows "findPick st' s 0 = findPick st s 0"
proof -
  have un: "\<not> pickUsed st (findPick st s 0)"
    using assms findPick_in_pool by blast
  then have "\<exists>p \<in> set demoPool. \<not> pickUsed st p"
    using findPick_in_pool by blast
  from findPick_unused_char [OF this, of s] obtain k where k:
    "k < length demoPool"
    "findPick st s 0 = demoPool ! ((s + k) mod length demoPool)"
    "\<forall>j < k. pickUsed st (demoPool ! ((s + j) mod length demoPool))"
    by blast
  have "\<forall>j. 0 \<le> j \<and> j < k \<longrightarrow> pickUsed st' (demoPool ! ((s + j) mod length demoPool))"
    using k(3) assms(2) pool_nth_mem by blast
  moreover have "\<not> pickUsed st' (demoPool ! ((s + k) mod length demoPool))"
    using assms(1) k(2) by simp
  ultimately have "findPick st' s 0 = demoPool ! ((s + k) mod length demoPool)"
    using k(1) by (intro findPick_first_unused) auto
  with k(2) show ?thesis by simp
qed

lemma findPick_start_used:
  assumes "\<not> pickUsed st (findPick st s 0)"
  shows "pickUsed (markPick (findPick st s 0) st) (demoPool ! (s mod length demoPool))"
proof -
  have "\<exists>p \<in> set demoPool. \<not> pickUsed st p"
    using assms findPick_in_pool by blast
  from findPick_unused_char [OF this, of s] obtain k where k:
    "findPick st s 0 = demoPool ! ((s + k) mod length demoPool)"
    "\<forall>j < k. pickUsed st (demoPool ! ((s + j) mod length demoPool))"
    by blast
  show ?thesis
  proof (cases k)
    case 0
    with k(1) show ?thesis by (simp add: pickUsed_markPick)
  next
    case (Suc k')
    with k(2) have "pickUsed st (demoPool ! ((s + 0) mod length demoPool))" by blast
    then show ?thesis by (simp add: pickUsed_markPick)
  qed
qed

section \<open>The fill loop\<close>

lemma fillLoop_done: "\<not> i < needed \<Longrightarrow> fillLoop st idx needed i acc = (acc, st)"
  by (subst fillLoop.simps) simp

lemma fillLoop_step:
  "i < needed \<Longrightarrow>
   fillLoop st idx needed i acc =
     (if \<not> pickUsed st (findPick st (idx + i) 0)
      then fillLoop (markPick (findPick st (idx + i) 0) st) idx needed (i + 1)
             (acc @ [filler (findPick st (idx + i) 0)])
      else fillLoop st idx needed (i + 1) acc)"
  by (subst fillLoop.simps) (simp add: Let_def pickUsed_def)

lemma fillLoop_0: "fillLoop st idx 0 0 [] = ([], st)"
  by (simp add: fillLoop_done)

lemma fillLoop_1:
  "fillLoop st idx (Suc 0) 0 [] =
     (if \<not> pickUsed st (findPick st idx 0)
      then ([filler (findPick st idx 0)], markPick (findPick st idx 0) st)
      else ([], st))"
  by (simp add: fillLoop_step fillLoop_done)

lemma fillLoop_2:
  "fillLoop st idx 2 0 [] =
     (if \<not> pickUsed st (findPick st idx 0)
      then (if \<not> pickUsed (markPick (findPick st idx 0) st)
                  (findPick (markPick (findPick st idx 0) st) (idx + 1) 0)
            then ([filler (findPick st idx 0),
                   filler (findPick (markPick (findPick st idx 0) st) (idx + 1) 0)],
                  markPick (findPick (markPick (findPick st idx 0) st) (idx + 1) 0)
                    (markPick (findPick st idx 0) st))
            else ([filler (findPick st idx 0)], markPick (findPick st idx 0) st))
      else ([], st))"
proof (cases "pickUsed st (findPick st idx 0)")
  case True
  then have "\<forall>p \<in> set demoPool. pickUsed st p" by (simp add: findPick_used_iff)
  then have "pickUsed st (findPick st (idx + 1) 0)" using findPick_in_pool by blast
  with True show ?thesis
    by (simp add: fillLoop_step fillLoop_done)
next
  case False
  then show ?thesis
    by (simp add: fillLoop_step fillLoop_done)
qed

lemma needed_cases:
  obtains "(2::nat) - k = 0" "2 \<le> k" | "(2::nat) - k = 1" "k = 1" | "(2::nat) - k = 2" "k = 0"
  by (cases k) (auto, metis One_nat_def Suc_1 diff_Suc_1 diff_Suc_Suc diff_is_0_eq' le_SucI
      le_add2 not_less_eq_eq plus_1_eq_Suc)

text \<open>
  What the fill loop adds for a section: at most the missing number of fillers, each made
  from a pool entry that was unused before, no entry twice, and the used-sets grow by the
  ids and names of the entries.
\<close>

lemma fillLoop_inv:
  assumes "fillLoop st idx (2 - k) 0 [] = (fs, st')"
  shows "\<exists>new. fs = map filler new \<and> set new \<subseteq> set demoPool \<and> distinct new \<and>
           length new \<le> 2 - k \<and>
           (\<forall>p \<in> set new. \<not> pickUsed st p) \<and>
           allUsedFeatureNames st' =
             allUsedFeatureNames st \<union> (\<lambda>p. normalizedNameOf (snd p)) ` set new \<and>
           allUsedFeatureIds st' = allUsedFeatureIds st \<union> (\<lambda>p. IdString (fst p)) ` set new"
proof (cases k rule: needed_cases)
  case 1
  with assms have "fs = []" "st' = st" by (simp_all add: fillLoop_0)
  then show ?thesis by (intro exI [of _ "[]"]) simp
next
  case 2
  let ?p = "findPick st idx 0"
  show ?thesis
  proof (cases "pickUsed st ?p")
    case True
    with assms 2 have "fs = []" "st' = st" by (simp_all add: fillLoop_1)
    then show ?thesis by (intro exI [of _ "[]"]) simp
  next
    case False
    with assms 2 have "fs = [filler ?p]" "st' = markPick ?p st" by (simp_all add: fillLoop_1)
    then show ?thesis using False 2 findPick_in_pool [of st idx 0]
      by (intro exI [of _ "[?p]"]) auto
  qed
next
  case 3
  let ?p = "findPick st idx 0"
  let ?q = "findPick (markPick ?p st) (idx + 1) 0"
  show ?thesis
  proof (cases "pickUsed st ?p")
    case True
    with assms 3 have "fs = []" "st' = st" by (simp_all add: fillLoop_2)
    then show ?thesis by (intro exI [of _ "[]"]) simp
  next
    case False
    show ?thesis
    proof (cases "pickUsed (markPick ?p st) ?q")
      case True
      with False assms 3 have "fs = [filler ?p]" "st' = markPick ?p st"
        by (simp_all add: fillLoop_2)
      then show ?thesis using False 3 findPick_in_pool [of st idx 0]
        by (intro exI [of _ "[?p]"]) auto
    next
      case unused: False
      with False assms 3 have res: "fs = [filler ?p, filler ?q]"
          "st' = markPick ?q (markPick ?p st)"
        by (simp_all add: fillLoop_2)
      have mem: "?p \<in> set demoPool" "?q \<in> set demoPool"
        by (rule findPick_in_pool)+
      have q: "\<not> pickUsed st ?q" "?q \<noteq> ?p"
        using unused pickUsed_markPick_pool [OF mem] by auto
      show ?thesis using res False q mem 3
        by (intro exI [of _ "[?p, ?q]"]) auto
    qed
  qed
qed

section \<open>One section, and all sections in order\<close>

lemma filler_fields [simp]:
  "name (filler p) = snd p"
  "featureId (filler p) = Some (IdString (fst p))"
  "baseline (filler p) = getFeatureBaselineStatus (IdString (fst p))"
  by (simp_all add: filler_def)

lemma filler_inj: "filler p = filler q \<longleftrightarrow> p = q"
  by (cases p, cases q) (auto simp: filler_def)

lemma recorded_mono: "recorded st f \<Longrightarrow> stateLe st st' \<Longrightarrow> recorded st' f"
  by auto

lemma fresh_antimono: "fresh st' f \<Longrightarrow> stateLe st st' \<Longrightarrow> fresh st f"
  using idUsed_mono [of st "featureId f" st'] by blast

lemma processSection_eq:
  assumes "filterFeatures st (map enrichFeature (sectionFeatures s)) = (K, stK)"
      and "fillLoop stK idx (2 - length K) 0 [] = (F, stF)"
  shows "processSection idx s st = (s\<lparr>webFeatures := Some (K @ F)\<rparr>, stF)"
  using assms by (simp add: processSection_def)

lemma processSection_split:
  obtains K stK F stF where
    "filterFeatures st (map enrichFeature (sectionFeatures s)) = (K, stK)"
    "fillLoop stK idx (2 - length K) 0 [] = (F, stF)"
    "processSection idx s st = (s\<lparr>webFeatures := Some (K @ F)\<rparr>, stF)"
proof -
  obtain K stK where k: "filterFeatures st (map enrichFeature (sectionFeatures s)) = (K, stK)"
    by (metis surj_pair)
  obtain F stF where f: "fillLoop stK idx (2 - length K) 0 [] = (F, stF)"
    by (metis surj_pair)
  show ?thesis
    using that [OF k f processSection_eq [OF k f]] .
qed

lemma sectionFeatures_update [simp]: "sectionFeatures (s\<lparr>webFeatures := Some fs\<rparr>) = fs"
  by (simp add: sectionFeatures_def)

text \<open>
  The output of a section: every feature in it was fresh for the used-sets the section
  started from and is recorded in those it ends with; no two features of it have the same
  normalized name; a feature is an enriched mention of the section that is not a variation
  of a name used before, or a filler made from a pool entry unused before.
\<close>

lemma processSection_inv:
  assumes "processSection idx s st = (s', st')"
  shows "stateLe st st' \<and>
         (\<exists>fs. s' = s\<lparr>webFeatures := Some fs\<rparr>) \<and>
         (\<forall>f \<in> set (sectionFeatures s'). fresh st f \<and> recorded st' f) \<and>
         distinct (map nameKey (sectionFeatures s')) \<and>
         allUsedFeatureNames st' = allUsedFeatureNames st \<union> nameKey ` set (sectionFeatures s') \<and>
         (\<forall>f \<in> set (sectionFeatures s').
            (f \<in> enrichFeature ` set (sectionFeatures s) \<and>
               \<not> isVariationOfExisting st (nameKey f)) \<or>
            (\<exists>p \<in> set demoPool. f = filler p \<and> \<not> pickUsed st p))"
proof -
  obtain K stK F stF where
    k: "filterFeatures st (map enrichFeature (sectionFeatures s)) = (K, stK)" and
    f: "fillLoop stK idx (2 - length K) 0 [] = (F, stF)" and
    p: "processSection idx s st = (s\<lparr>webFeatures := Some (K @ F)\<rparr>, stF)"
    by (rule processSection_split)
  from assms p have res: "s' = s\<lparr>webFeatures := Some (K @ F)\<rparr>" "st' = stF" by simp_all
  note kinv = filterFeatures_inv [OF k]
  from fillLoop_inv [OF f] obtain new where new:
    "F = map filler new" "set new \<subseteq> set demoPool" "distinct new"
    "\<forall>p \<in> set new. \<not> pickUsed stK p"
    "allUsedFeatureNames stF =
       allUsedFeatureNames stK \<union> (\<lambda>p. normalizedNameOf (snd p)) ` set new"
    "allUsedFeatureIds stF = allUsedFeatureIds stK \<union> (\<lambda>p. IdString (fst p)) ` set new"
    by blast
  have leK: "stateLe st stK" using kinv by blast
  have leF: "stateLe stK stF" using new(5,6) by auto
  have unused_st: "\<not> pickUsed st p" if "p \<in> set new" for p
    using new(4) that pickUsed_mono [OF _ leK] by blast
  have fresh_F: "fresh st (filler p) \<and> recorded stF (filler p)" if "p \<in> set new" for p
  proof -
    have "\<not> pickUsed st p" using that by (rule unused_st)
    then have "fresh st (filler p)"
      by (auto simp: pickUsed_def idUsed_def)
    moreover have "recorded stF (filler p)"
      using that new(5,6) by auto
    ultimately show ?thesis by blast
  qed
  have fresh_K: "fresh st g \<and> recorded stF g" if "g \<in> set K" for g
  proof -
    from kinv that have "fresh st g" "recorded stK g" by blast+
    with recorded_mono [OF _ leF] show ?thesis by blast
  qed
  have names_F: "nameKey ` set F = (\<lambda>p. normalizedNameOf (snd p)) ` set new"
    by (auto simp: new(1) image_image)
  have dist_F: "distinct (map nameKey F)"
  proof -
    have "inj_on (\<lambda>p. normalizedNameOf (snd p)) (set new)"
    proof (rule inj_onI)
      fix p q
      assume "p \<in> set new" "q \<in> set new"
        and eq: "normalizedNameOf (snd p) = normalizedNameOf (snd q)"
      then have "p \<in> set demoPool" "q \<in> set demoPool" using new(2) by blast+
      from demoPool_inj(2) [OF this(2,1)] eq show "p = q" by simp
    qed
    with new(3) have "distinct (map (\<lambda>p. normalizedNameOf (snd p)) new)"
      by (simp add: distinct_map)
    then show ?thesis by (simp add: new(1) comp_def)
  qed
  have disj: "nameKey ` set K \<inter> nameKey ` set F = {}"
  proof (rule equals0I)
    fix x assume x: "x \<in> nameKey ` set K \<inter> nameKey ` set F"
    then have "x \<in> nameKey ` set K" by (rule IntD1)
    then obtain g where g: "g \<in> set K" "x = nameKey g" by (rule imageE)
    from x have "x \<in> nameKey ` set F" by (rule IntD2)
    then have "x \<in> (\<lambda>p. normalizedNameOf (snd p)) ` set new" by (simp only: names_F)
    then obtain p where p: "p \<in> set new" "x = normalizedNameOf (snd p)" by (rule imageE)
    from kinv g(1) have "nameKey g \<in> allUsedFeatureNames stK" by blast
    moreover from new(4) p(1) have "\<not> pickUsed stK p" by (rule bspec)
    then have "normalizedNameOf (snd p) \<notin> allUsedFeatureNames stK"
      by (simp add: pickUsed_def)
    ultimately show False using g(2) p(2) by simp
  qed
  have c1: "stateLe st stF" using leK leF by blast
  have c3: "\<forall>f \<in> set (K @ F). fresh st f \<and> recorded stF f"
    using fresh_K fresh_F by (auto simp: new(1))
  have c4: "distinct (map nameKey (K @ F))"
    using kinv dist_F disj by auto
  have c5: "allUsedFeatureNames stF = allUsedFeatureNames st \<union> nameKey ` set (K @ F)"
    using kinv new(5) names_F by auto
  have c6: "\<forall>f \<in> set (K @ F).
            (f \<in> enrichFeature ` set (sectionFeatures s) \<and>
               \<not> isVariationOfExisting st (nameKey f)) \<or>
            (\<exists>p \<in> set demoPool. f = filler p \<and> \<not> pickUsed st p)"
  proof
    fix g assume "g \<in> set (K @ F)"
    then consider "g \<in> set K" | "g \<in> set F" by auto
    then show "(g \<in> enrichFeature ` set (sectionFeatures s) \<and>
               \<not> isVariationOfExisting st (nameKey g)) \<or>
            (\<exists>p \<in> set demoPool. g = filler p \<and> \<not> pickUsed st p)"
    proof cases
      case 1
      with kinv have "g \<in> set (map enrichFeature (sectionFeatures s))"
        "\<not> isVariationOfExisting st (nameKey g)" by blast+
      then show ?thesis by simp
    next
      case 2
      then obtain p where "p \<in> set new" "g = filler p" by (auto simp: new(1))
      with unused_st new(2) show ?thesis by blast
    qed
  qed
  show ?thesis
    unfolding res using c1 c3 c4 c5 c6 by simp blast
qed

lemma forEachSection_append:
  "forEachSection idx st (xs @ ys) =
     (case forEachSection idx st xs of
        (o1, s1) \<Rightarrow>
          (case forEachSection (idx + length xs) s1 ys of (o2, s2) \<Rightarrow> (o1 @ o2, s2)))"
  by (induction xs arbitrary: idx st) (auto split: prod.splits)

lemma forEachSection_length: "length (fst (forEachSection idx st ss)) = length ss"
proof (induction ss arbitrary: idx st)
  case Nil
  show ?case by simp
next
  case (Cons s ss)
  obtain s1 st1 where p: "processSection idx s st = (s1, st1)" by (metis surj_pair)
  obtain ss1 st2 where r: "forEachSection (idx + 1) st1 ss = (ss1, st2)" by (metis surj_pair)
  from Cons.IH [of "idx + 1" st1] r have "length ss1 = length ss" by simp
  with p r show ?case by simp
qed

lemma forEachSection_inv:
  assumes "forEachSection idx st ss = (out, st')"
  shows "stateLe st st' \<and>
         (\<forall>s' \<in> set out. \<forall>f \<in> set (sectionFeatures s'). fresh st f \<and> recorded st' f) \<and>
         distinct (map nameKey (concat (map sectionFeatures out))) \<and>
         allUsedFeatureNames st' =
           allUsedFeatureNames st \<union> nameKey ` set (concat (map sectionFeatures out))"
  using assms
proof (induction ss arbitrary: idx st out st')
  case Nil
  then show ?case by auto
next
  case (Cons s ss)
  obtain s1 st1 where p: "processSection idx s st = (s1, st1)" by (metis surj_pair)
  obtain ss1 st2 where r: "forEachSection (idx + 1) st1 ss = (ss1, st2)" by (metis surj_pair)
  from Cons.prems p r have res: "out = s1 # ss1" "st' = st2" by simp_all
  note pinv = processSection_inv [OF p]
  note IH = Cons.IH [OF r]
  have le1: "stateLe st st1" using pinv by blast
  have le2: "stateLe st1 st2" using IH by blast
  have head: "fresh st f \<and> recorded st2 f" if "f \<in> set (sectionFeatures s1)" for f
  proof -
    from pinv that have "fresh st f" "recorded st1 f" by blast+
    with recorded_mono [OF _ le2] show ?thesis by blast
  qed
  have tail1: "fresh st1 f \<and> recorded st2 f"
    if "s' \<in> set ss1" "f \<in> set (sectionFeatures s')" for s' f
    using IH that by blast
  have tail: "fresh st f \<and> recorded st2 f"
    if "s' \<in> set ss1" "f \<in> set (sectionFeatures s')" for s' f
    using tail1 [OF that] fresh_antimono [OF _ le1] by blast
  have disj: "nameKey ` set (sectionFeatures s1) \<inter>
      nameKey ` set (concat (map sectionFeatures ss1)) = {}"
  proof (rule equals0I)
    fix x
    assume x: "x \<in> nameKey ` set (sectionFeatures s1) \<inter>
      nameKey ` set (concat (map sectionFeatures ss1))"
    then have "x \<in> nameKey ` set (sectionFeatures s1)" by (rule IntD1)
    then obtain g where g: "g \<in> set (sectionFeatures s1)" "x = nameKey g" by (rule imageE)
    from x have "x \<in> nameKey ` set (concat (map sectionFeatures ss1))" by (rule IntD2)
    then obtain f where f: "f \<in> set (concat (map sectionFeatures ss1))" "x = nameKey f"
      by (rule imageE)
    from f(1) obtain s' where s': "s' \<in> set ss1" "f \<in> set (sectionFeatures s')" by auto
    from pinv g(1) have "nameKey g \<in> allUsedFeatureNames st1" by blast
    moreover from tail1 [OF s'] have "nameKey f \<notin> allUsedFeatureNames st1" by blast
    ultimately show False using g(2) f(2) by simp
  qed
  have c1: "stateLe st st2" using le1 le2 by blast
  have c2: "\<forall>s' \<in> set (s1 # ss1). \<forall>f \<in> set (sectionFeatures s'). fresh st f \<and> recorded st2 f"
    using head tail by auto
  have c3: "distinct (map nameKey (concat (map sectionFeatures (s1 # ss1))))"
    using pinv IH disj by auto
  have c4: "allUsedFeatureNames st2 =
      allUsedFeatureNames st \<union> nameKey ` set (concat (map sectionFeatures (s1 # ss1)))"
    using pinv IH by auto
  show ?case unfolding res using c1 c2 c3 c4 by blast
qed


text \<open>
  The section at a position is processed with the used-sets that the sections before it
  leave behind.
\<close>

lemma forEachSection_nth:
  assumes "k < length ss"
  shows "fst (forEachSection idx st ss) ! k =
           fst (processSection (idx + k) (ss ! k) (snd (forEachSection idx st (take k ss))))"
    and "snd (forEachSection idx st (take (Suc k) ss)) =
           snd (processSection (idx + k) (ss ! k) (snd (forEachSection idx st (take k ss))))"
proof -
  have split: "ss = take k ss @ (ss ! k) # drop (Suc k) ss"
    using assms by (simp add: id_take_nth_drop)
  have len: "length (fst (forEachSection idx st (take k ss))) = k"
    using assms by (simp add: forEachSection_length)
  have "forEachSection idx st ss =
      forEachSection idx st (take k ss @ (ss ! k) # drop (Suc k) ss)"
    using split by simp
  then show "fst (forEachSection idx st ss) ! k =
           fst (processSection (idx + k) (ss ! k) (snd (forEachSection idx st (take k ss))))"
    using len assms
    by (auto simp: forEachSection_append nth_append split: prod.splits)
  have "take (Suc k) ss = take k ss @ [ss ! k]"
    using assms by (simp add: take_Suc_conv_app_nth)
  then show "snd (forEachSection idx st (take (Suc k) ss)) =
           snd (processSection (idx + k) (ss ! k) (snd (forEachSection idx st (take k ss))))"
    using assms by (auto simp: forEachSection_append split: prod.splits)
qed

lemma forEachSection_take_mono:
  assumes "j \<le> k"
  shows "stateLe (snd (forEachSection idx st (take j ss))) (snd (forEachSection idx st (take k ss)))"
proof -
  have "take k ss = take j ss @ take (k - j) (drop j ss)"
    using assms by (metis le_add_diff_inverse take_add)
  then have "forEachSection idx st (take k ss) =
      forEachSection idx st (take j ss @ take (k - j) (drop j ss))" by simp
  then show ?thesis
    using forEachSection_inv
    by (auto simp: forEachSection_append split: prod.splits) blast+
qed

section \<open>Claims about the deduplication pass\<close>









end
